theory Spec2Isabelle
  imports Complex_Main "HOL-Library.Sublist" "HOL-Library.Word"
begin

unbundle bit_operations_syntax

section \<open>Python values\<close>

text \<open>
  JSON data as Python holds it after \<^verbatim>\<open>json.loads\<close>: \<^verbatim>\<open>None\<close>, booleans, unbounded
  integers, floats (a finite float is idealised as an exact rational; the infinities,
  which Python reads from \<^verbatim>\<open>Infinity\<close>, \<^verbatim>\<open>-Infinity\<close> and from numbers too large for a
  float such as \<^verbatim>\<open>1e400\<close>, and NaN are values of their own), strings, lists and dicts.
  The characters of a string are the code points below 256.  A dict keeps its insertion order, so it is an
  association list; a key is looked up at its first entry.
\<close>

datatype json =
    JNull
  | JBool bool
  | JInt int
  | JFloat rat
  | JInfinity
  | JNegInfinity
  | JNaN
  | JStr string
  | JList "json list"
  | JObj "(string \<times> json) list"

type_synonym 'v pydict = "(string \<times> 'v) list"

text \<open>\<^verbatim>\<open>d.get(k)\<close>, \<^verbatim>\<open>k in d\<close>, \<^verbatim>\<open>d[k] = v\<close> (an existing key keeps its place, a new
  one goes last) and \<^verbatim>\<open>d.update(e)\<close>.\<close>

definition dict_get :: "'v pydict \<Rightarrow> string \<Rightarrow> 'v option" where
  "dict_get d k = map_of d k"

definition dict_in :: "string \<Rightarrow> 'v pydict \<Rightarrow> bool" where
  "dict_in k d = (map_of d k \<noteq> None)"

primrec dict_set :: "'v pydict \<Rightarrow> string \<Rightarrow> 'v \<Rightarrow> 'v pydict" where
  "dict_set [] k v = [(k, v)]"
| "dict_set (p # ps) k v = (if fst p = k then (k, v) # ps else p # dict_set ps k v)"

primrec dict_update :: "'v pydict \<Rightarrow> 'v pydict \<Rightarrow> 'v pydict" where
  "dict_update d [] = d"
| "dict_update d (p # ps) = dict_update (dict_set d (fst p) (snd p)) ps"

section \<open>Clock and configuration\<close>

text \<open>
  A naive \<^verbatim>\<open>datetime\<close> is a count of microseconds since the epoch (the resolution of
  Python's \<^verbatim>\<open>datetime\<close>), a \<^verbatim>\<open>timedelta\<close> a count of microseconds.  Every function that
  reads \<^verbatim>\<open>datetime.utcnow()\<close> takes the reading as its argument \<open>utcnow\<close>.
\<close>

type_synonym datetime = int
type_synonym timedelta = int

definition seconds :: "int \<Rightarrow> timedelta" where
  "seconds n = n * 1000000"

definition minutes :: "int \<Rightarrow> timedelta" where
  "minutes n = seconds (60 * n)"

definition hours :: "int \<Rightarrow> timedelta" where
  "hours n = minutes (60 * n)"

definition days :: "int \<Rightarrow> timedelta" where
  "days n = hours (24 * n)"

text \<open>\<^verbatim>\<open>calendar.timegm(dt.utctimetuple())\<close>: the whole seconds of a UTC datetime; the
  microseconds are dropped.\<close>

definition timegm :: "datetime \<Rightarrow> int" where
  "timegm dt = dt div 1000000"

text \<open>\<^verbatim>\<open>dt.timestamp()\<close> of a naive datetime: Python reads a naive datetime as local time,
  so on a host whose local time is UTC + \<open>utcoffset\<close> the result is shifted by that
  offset.\<close>

definition timestamp :: "timedelta \<Rightarrow> datetime \<Rightarrow> rat" where
  "timestamp utcoffset dt = of_int (dt - utcoffset) / 1000000"

text \<open>The fields of \<^verbatim>\<open>app.core.config.Settings\<close> that the token core reads.\<close>

record settings =
  SECRET_KEY :: string
  ALGORITHM :: string
  ACCESS_TOKEN_EXPIRE_MINUTES :: int
  REFRESH_TOKEN_EXPIRE_DAYS :: int

definition default_settings :: settings where
  "default_settings =
     \<lparr> SECRET_KEY = ''your-secret-key-change-this-in-production'',
       ALGORITHM = ''HS256'',
       ACCESS_TOKEN_EXPIRE_MINUTES = 30,
       REFRESH_TOKEN_EXPIRE_DAYS = 7 \<rparr>"

section \<open>Errors\<close>

text \<open>
  The exceptions that cross the functions below.  \<open>JWTError\<close> stands for python-jose's
  \<^verbatim>\<open>JWTError\<close> and its subclasses \<^verbatim>\<open>ExpiredSignatureError\<close> and \<^verbatim>\<open>JWTClaimsError\<close>;
  \<open>TypeError\<close> is Python's, raised by \<^verbatim>\<open>int(None)\<close> and by \<^verbatim>\<open>json.dumps\<close> of a
  datetime; \<open>OverflowError\<close> is raised by \<^verbatim>\<open>int\<close> of an infinite float; \<open>ValueError\<close> and \<open>BinasciiError\<close> (\<^verbatim>\<open>binascii.Error\<close>) are raised by pyotp
  and \<^verbatim>\<open>base64\<close>; \<open>HTTPException\<close> carries the status code and the detail.
\<close>

datatype jwt_error = NotAToken | AlgorithmNotAllowed | InvalidSignature | ExpiredSignature | ClaimsError

datatype error =
    JWTError jwt_error
  | TypeError
  | OverflowError
  | ValueError
  | BinasciiError
  | HTTPException int string

section \<open>python-jose: the token codec\<close>

text \<open>
  A token string is modelled symbolically.  \<open>JWS alg claims key\<close> is the compact
  serialisation whose header names \<open>alg\<close>, whose payload is the JSON object \<open>claims\<close> and
  whose signature was made with \<open>key\<close> (the signature is taken to verify under that key
  and no other); \<open>NotJWS s\<close> is any other string.
\<close>

datatype token = JWS string "json pydict" string | NotJWS string

text \<open>What an issuer puts into the claims it hands to \<^verbatim>\<open>jwt.encode\<close>: JSON data, or a
  \<^verbatim>\<open>datetime\<close> object.\<close>

datatype claimval = J json | Datetime datetime

text \<open>\<^verbatim>\<open>jwt.encode\<close>: a datetime under \<^verbatim>\<open>exp\<close>, \<^verbatim>\<open>iat\<close> or \<^verbatim>\<open>nbf\<close> becomes its whole
  seconds; then the claims are dumped as JSON (a datetime left anywhere else is a
  \<^verbatim>\<open>TypeError\<close>) and signed.\<close>

definition convert_time_claim :: "string \<Rightarrow> claimval pydict \<Rightarrow> claimval pydict" where
  "convert_time_claim time_claim claims =
     (case dict_get claims time_claim of
        Some (Datetime dt) \<Rightarrow> dict_set claims time_claim (J (JInt (timegm dt)))
      | _ \<Rightarrow> claims)"

primrec dumps_claims :: "claimval pydict \<Rightarrow> error + json pydict" where
  "dumps_claims [] = Inr []"
| "dumps_claims (p # ps) =
     (case snd p of
        Datetime dt \<Rightarrow> Inl TypeError
      | J v \<Rightarrow> (case dumps_claims ps of Inl e \<Rightarrow> Inl e | Inr qs \<Rightarrow> Inr ((fst p, v) # qs)))"

definition jwt_encode :: "claimval pydict \<Rightarrow> string \<Rightarrow> string \<Rightarrow> error + token" where
  "jwt_encode claims key algorithm =
     (let claims = convert_time_claim ''exp'' claims;
          claims = convert_time_claim ''iat'' claims;
          claims = convert_time_claim ''nbf'' claims
      in case dumps_claims claims of
           Inl e \<Rightarrow> Inl e
         | Inr payload \<Rightarrow> Inr (JWS algorithm payload key))"

text \<open>
  Python's \<^verbatim>\<open>int(x)\<close> as jose calls it, inside \<^verbatim>\<open>try: ... except ValueError\<close> (which it
  turns into a \<^verbatim>\<open>JWTClaimsError\<close>): a finite float is truncated towards zero, NaN is a
  \<^verbatim>\<open>ValueError\<close>, a boolean is 0 or 1, a string is read as a decimal literal (surrounding
  white space, a sign, single underscores between digits).  An infinite float raises
  \<^verbatim>\<open>OverflowError\<close>, and \<^verbatim>\<open>None\<close>, a list or a dict raise \<^verbatim>\<open>TypeError\<close>; these two the
  \<^verbatim>\<open>except\<close> does not catch.  White space is what \<^verbatim>\<open>str.isspace\<close> accepts among the code
  points below 256.
\<close>

definition is_blank :: "char \<Rightarrow> bool" where
  "is_blank c =
     (c \<in> set [CHR '' '', CHR 0x09, CHR 0x0A, CHR 0x0B, CHR 0x0C, CHR 0x0D, CHR 0x1C, CHR 0x1D,
                CHR 0x1E, CHR 0x1F, CHR 0x85, CHR 0xA0])"

definition is_digit :: "char \<Rightarrow> bool" where
  "is_digit c = (c \<in> set ''0123456789'')"

definition digit_val :: "char \<Rightarrow> int" where
  "digit_val c = int (of_char c) - 48"

definition strip :: "string \<Rightarrow> string" where
  "strip s = rev (dropWhile is_blank (rev (dropWhile is_blank s)))"

fun digits_value :: "int \<Rightarrow> string \<Rightarrow> int option" where
  "digits_value acc [] = Some acc"
| "digits_value acc [c] = (if is_digit c then Some (acc * 10 + digit_val c) else None)"
| "digits_value acc (c # d # cs) =
     (if is_digit c then
        (if d = CHR ''_'' then
           (case cs of [] \<Rightarrow> None
            | e # es \<Rightarrow> if is_digit e then digits_value (acc * 10 + digit_val c) cs else None)
         else digits_value (acc * 10 + digit_val c) (d # cs))
      else None)"

text \<open>From Python 3.11 on a literal of more than 4300 digits is refused
  (\<^verbatim>\<open>sys.get_int_max_str_digits()\<close>), with a \<^verbatim>\<open>ValueError\<close> as well.\<close>

definition int_max_str_digits :: nat where
  "int_max_str_digits = 4300"

definition digits_of_str :: "string \<Rightarrow> int option" where
  "digits_of_str cs =
     (if cs = [] \<or> length (filter is_digit cs) > int_max_str_digits then None
      else digits_value 0 cs)"

definition int_of_str :: "string \<Rightarrow> int option" where
  "int_of_str s =
     (case strip s of
        [] \<Rightarrow> None
      | c # cs \<Rightarrow>
          if c = CHR ''-'' then map_option uminus (digits_of_str cs)
          else if c = CHR ''+'' then digits_of_str cs
          else digits_of_str (c # cs))"

definition trunc :: "rat \<Rightarrow> int" where
  "trunc q = (if 0 \<le> q then \<lfloor>q\<rfloor> else \<lceil>q\<rceil>)"

fun py_int :: "json \<Rightarrow> error + int" where
  "py_int (JInt i) = Inr i"
| "py_int (JBool b) = Inr (if b then 1 else 0)"
| "py_int (JFloat q) = Inr (trunc q)"
| "py_int JInfinity = Inl OverflowError"
| "py_int JNegInfinity = Inl OverflowError"
| "py_int JNaN = Inl (JWTError ClaimsError)"
| "py_int (JStr s) = (case int_of_str s of None \<Rightarrow> Inl (JWTError ClaimsError) | Some i \<Rightarrow> Inr i)"
| "py_int JNull = Inl TypeError"
| "py_int (JList xs) = Inl TypeError"
| "py_int (JObj d) = Inl TypeError"

text \<open>The checks of \<^verbatim>\<open>jwt._validate_claims\<close>, in its order, as \<^verbatim>\<open>jwt.decode\<close> runs them
  when it is given no audience, issuer, subject or access token and no options: each
  returns the exception it raises, if any.\<close>

definition validate_iat :: "json pydict \<Rightarrow> error option" where
  "validate_iat claims =
     (case dict_get claims ''iat'' of
        None \<Rightarrow> None
      | Some v \<Rightarrow> (case py_int v of Inl e \<Rightarrow> Some e | Inr i \<Rightarrow> None))"

definition validate_nbf :: "json pydict \<Rightarrow> datetime \<Rightarrow> error option" where
  "validate_nbf claims utcnow =
     (case dict_get claims ''nbf'' of
        None \<Rightarrow> None
      | Some v \<Rightarrow>
          (case py_int v of
             Inl e \<Rightarrow> Some e
           | Inr nbf \<Rightarrow> if nbf > timegm utcnow then Some (JWTError ClaimsError) else None))"

definition validate_exp :: "json pydict \<Rightarrow> datetime \<Rightarrow> error option" where
  "validate_exp claims utcnow =
     (case dict_get claims ''exp'' of
        None \<Rightarrow> None
      | Some v \<Rightarrow>
          (case py_int v of
             Inl e \<Rightarrow> Some e
           | Inr exp_s \<Rightarrow>
               if exp_s < timegm utcnow then Some (JWTError ExpiredSignature) else None))"

fun is_str :: "json \<Rightarrow> bool" where
  "is_str (JStr s) = True"
| "is_str v = False"

definition validate_aud :: "json pydict \<Rightarrow> error option" where
  "validate_aud claims =
     (case dict_get claims ''aud'' of
        None \<Rightarrow> None
      | Some v \<Rightarrow> Some (JWTError ClaimsError))"

definition validate_sub :: "json pydict \<Rightarrow> error option" where
  "validate_sub claims =
     (case dict_get claims ''sub'' of
        None \<Rightarrow> None
      | Some v \<Rightarrow> if is_str v then None else Some (JWTError ClaimsError))"

definition validate_jti :: "json pydict \<Rightarrow> error option" where
  "validate_jti claims =
     (case dict_get claims ''jti'' of
        None \<Rightarrow> None
      | Some v \<Rightarrow> if is_str v then None else Some (JWTError ClaimsError))"

definition validate_at_hash :: "json pydict \<Rightarrow> error option" where
  "validate_at_hash claims =
     (if dict_in ''at_hash'' claims then Some (JWTError ClaimsError) else None)"

fun first_error :: "error option list \<Rightarrow> error option" where
  "first_error [] = None"
| "first_error (None # es) = first_error es"
| "first_error (Some e # es) = Some e"

definition validate_claims :: "json pydict \<Rightarrow> datetime \<Rightarrow> error option" where
  "validate_claims claims utcnow =
     first_error
       [validate_iat claims, validate_nbf claims utcnow, validate_exp claims utcnow,
        validate_aud claims, validate_sub claims, validate_jti claims,
        validate_at_hash claims]"

text \<open>
  When does a signature made with one key verify under another?  The settings name an
  HMAC algorithm and a secret string, which jose encodes as UTF-8.  HMAC fills a key that
  is not longer than the block of its hash (64 bytes for \<^verbatim>\<open>HS256\<close>, 128 for \<^verbatim>\<open>HS384\<close> and
  \<^verbatim>\<open>HS512\<close>) with zero bytes, so such keys are the same key when they differ in trailing
  zero bytes only; a longer key is hashed first and is taken to be the same as no other
  key.
\<close>

definition utf8_length :: "string \<Rightarrow> nat" where
  "utf8_length s = sum_list (map (\<lambda>c. if of_char c < (128 :: nat) then 1 else 2) s)"

definition block_size :: "string \<Rightarrow> nat" where
  "block_size alg = (if alg = ''HS256'' then 64 else 128)"

definition hmac_key :: "string \<Rightarrow> string \<Rightarrow> string" where
  "hmac_key alg key =
     (if utf8_length key \<le> block_size alg
      then rev (dropWhile (\<lambda>c. c = CHR 0x00) (rev key))
      else key)"

text \<open>\<^verbatim>\<open>jwt.decode(token, key, algorithms=[...])\<close>: the token must be a JWS whose algorithm is
  allowed and whose signature verifies under \<open>key\<close>; then the registered claims are
  validated against the clock and the claims returned.\<close>

definition jwt_decode :: "token \<Rightarrow> string \<Rightarrow> string list \<Rightarrow> datetime \<Rightarrow> error + json pydict" where
  "jwt_decode token key algorithms utcnow =
     (case token of
        NotJWS s \<Rightarrow> Inl (JWTError NotAToken)
      | JWS alg claims k \<Rightarrow>
          if alg \<in> set algorithms then
            (if hmac_key alg k = hmac_key alg key then
               (case validate_claims claims utcnow of
                  Some e \<Rightarrow> Inl e
                | None \<Rightarrow> Inr claims)
             else Inl (JWTError InvalidSignature))
          else Inl (JWTError AlgorithmNotAllowed))"

section \<open>app/core/security.py\<close>

text \<open>\<^verbatim>\<open>if expires_delta:\<close> -- \<^verbatim>\<open>None\<close> is false, and so is a zero \<^verbatim>\<open>timedelta\<close>.\<close>

definition truthy :: "timedelta option \<Rightarrow> bool" where
  "truthy expires_delta = (case expires_delta of None \<Rightarrow> False | Some td \<Rightarrow> td \<noteq> 0)"

definition access_expire :: "settings \<Rightarrow> datetime \<Rightarrow> timedelta option \<Rightarrow> datetime" where
  "access_expire cfg utcnow expires_delta =
     (if truthy expires_delta then utcnow + the expires_delta
      else utcnow + minutes (ACCESS_TOKEN_EXPIRE_MINUTES cfg))"

definition create_access_token ::
    "settings \<Rightarrow> datetime \<Rightarrow> json pydict \<Rightarrow> timedelta option \<Rightarrow> error + token" where
  "create_access_token cfg utcnow data expires_delta =
     (let to_encode = map (\<lambda>p. (fst p, J (snd p))) data;
          expire = access_expire cfg utcnow expires_delta;
          to_encode = dict_update to_encode
                        [(''exp'', Datetime expire), (''type'', J (JStr ''access''))]
      in jwt_encode to_encode (SECRET_KEY cfg) (ALGORITHM cfg))"

definition create_refresh_token :: "settings \<Rightarrow> datetime \<Rightarrow> json pydict \<Rightarrow> error + token" where
  "create_refresh_token cfg utcnow data =
     (let to_encode = map (\<lambda>p. (fst p, J (snd p))) data;
          expire = utcnow + days (REFRESH_TOKEN_EXPIRE_DAYS cfg);
          to_encode = dict_update to_encode
                        [(''exp'', Datetime expire), (''type'', J (JStr ''refresh''))]
      in jwt_encode to_encode (SECRET_KEY cfg) (ALGORITHM cfg))"

definition verify_token :: "settings \<Rightarrow> datetime \<Rightarrow> token \<Rightarrow> error + json pydict" where
  "verify_token cfg utcnow token =
     (case jwt_decode token (SECRET_KEY cfg) [ALGORITHM cfg] utcnow of
        Inr payload \<Rightarrow> Inr payload
      | Inl (JWTError e) \<Rightarrow> Inl (HTTPException 401 ''Could not validate credentials'')
      | Inl e \<Rightarrow> Inl e)"

definition get_current_user_token :: "settings \<Rightarrow> datetime \<Rightarrow> token \<Rightarrow> error + json pydict" where
  "get_current_user_token cfg utcnow credentials =
     (case verify_token cfg utcnow credentials of
        Inl e \<Rightarrow> Inl e
      | Inr payload \<Rightarrow>
          if dict_get payload ''type'' \<noteq> Some (JStr ''access'')
          then Inl (HTTPException 401 ''Invalid token type'')
          else Inr payload)"

definition create_password_reset_token ::
    "settings \<Rightarrow> timedelta \<Rightarrow> datetime \<Rightarrow> string \<Rightarrow> error + token" where
  "create_password_reset_token cfg utcoffset utcnow email =
     (let delta = hours 1;
          now = utcnow;
          expires = now + delta;
          exp_s = timestamp utcoffset expires
      in jwt_encode
           [(''exp'', J (JFloat exp_s)), (''nbf'', Datetime now), (''sub'', J (JStr email)),
            (''type'', J (JStr ''password_reset''))]
           (SECRET_KEY cfg) (ALGORITHM cfg))"

definition verify_password_reset_token ::
    "settings \<Rightarrow> datetime \<Rightarrow> token \<Rightarrow> error + json option" where
  "verify_password_reset_token cfg utcnow token =
     (case jwt_decode token (SECRET_KEY cfg) [ALGORITHM cfg] utcnow of
        Inr decoded_token \<Rightarrow>
          if dict_get decoded_token ''type'' \<noteq> Some (JStr ''password_reset'')
          then Inr None
          else Inr (dict_get decoded_token ''sub'')
      | Inl (JWTError e) \<Rightarrow> Inr None
      | Inl e \<Rightarrow> Inl e)"

text \<open>The registered claims that a claim set carries besides \<^verbatim>\<open>exp\<close> pass the decoder's
  validation at the time of the check (\<^verbatim>\<open>iat\<close> and \<^verbatim>\<open>nbf\<close> are numbers, \<^verbatim>\<open>nbf\<close> is not in
  the future, \<^verbatim>\<open>sub\<close> and \<^verbatim>\<open>jti\<close> are strings, there is no \<^verbatim>\<open>aud\<close> and no
  \<^verbatim>\<open>at_hash\<close>).\<close>

definition other_claims_valid :: "json pydict \<Rightarrow> datetime \<Rightarrow> bool" where
  "other_claims_valid claims utcnow =
     (first_error
        [validate_iat claims, validate_nbf claims utcnow, validate_aud claims,
         validate_sub claims, validate_jti claims, validate_at_hash claims] = None)"



section \<open>app/api/v1/endpoints/auth.py\<close>

text \<open>The \<^verbatim>\<open>/refresh\<close> endpoint.  Its argument is never looked at (the source's
  \<^verbatim>\<open># TODO: Verify refresh token and get user data\<close>): it issues an access token for a
  fixed user.\<close>

record refresh_response =
  access_token :: token
  token_type :: string
  expires_in :: int

definition refresh_token :: "settings \<Rightarrow> datetime \<Rightarrow> token \<Rightarrow> error + refresh_response" where
  "refresh_token cfg utcnow refresh_token_arg =
     (let user_data =
            [(''sub'', JStr ''user@example.com''), (''email'', JStr ''user@example.com''),
             (''role'', JStr ''user'')];
          access_token_expires = minutes (ACCESS_TOKEN_EXPIRE_MINUTES cfg)
      in case create_access_token cfg utcnow user_data (Some access_token_expires) of
           Inl e \<Rightarrow> Inl e
         | Inr tok \<Rightarrow>
             Inr \<lparr> access_token = tok, token_type = ''bearer'',
                   expires_in = ACCESS_TOKEN_EXPIRE_MINUTES cfg * 60 \<rparr>)"

section \<open>pyotp: one-time codes\<close>

text \<open>
  \<^verbatim>\<open>str(n)\<close> for a natural number, \<^verbatim>\<open>bytes.upper()\<close> and \<^verbatim>\<open>str.lower()\<close> on ASCII, and
  \<^verbatim>\<open>n.to_bytes(k, "big")\<close> (bytes are numbers below 256).
\<close>

fun str_nat :: "nat \<Rightarrow> string" where
  "str_nat n =
     (if n < 10 then [''0123456789'' ! n]
      else str_nat (n div 10) @ [''0123456789'' ! (n mod 10)])"

declare str_nat.simps [simp del]

definition upper_char :: "char \<Rightarrow> char" where
  "upper_char c =
     (case map_of (zip ''abcdefghijklmnopqrstuvwxyz'' ''ABCDEFGHIJKLMNOPQRSTUVWXYZ'') c of
        None \<Rightarrow> c
      | Some u \<Rightarrow> u)"

definition lower_char :: "char \<Rightarrow> char" where
  "lower_char c =
     (case map_of (zip ''ABCDEFGHIJKLMNOPQRSTUVWXYZ'' ''abcdefghijklmnopqrstuvwxyz'') c of
        None \<Rightarrow> c
      | Some l \<Rightarrow> l)"

definition lower :: "string \<Rightarrow> string" where
  "lower s = map lower_char s"

fun to_bytes :: "nat \<Rightarrow> nat \<Rightarrow> nat list" where
  "to_bytes k v = (if k = 0 then [] else to_bytes (k - 1) (v div 256) @ [v mod 256])"

declare to_bytes.simps [simp del]

text \<open>
  \<^verbatim>\<open>base64.b32decode(s, casefold=True)\<close>: the text is upper-cased and its trailing
  \<^verbatim>\<open>=\<close> stripped; every group of eight characters gives five bytes; the length must be
  a multiple of eight and the padding 0, 1, 3, 4 or 6 characters long, which cuts the
  last group short.  A character outside the alphabet is a \<^verbatim>\<open>binascii.Error\<close>.
\<close>

fun index_of :: "'a \<Rightarrow> 'a list \<Rightarrow> nat option" where
  "index_of x [] = None"
| "index_of x (y # ys) = (if x = y then Some 0 else map_option Suc (index_of x ys))"

definition b32_alphabet :: string where
  "b32_alphabet = ''ABCDEFGHIJKLMNOPQRSTUVWXYZ234567''"

definition b32rev :: "char \<Rightarrow> nat option" where
  "b32rev c = index_of c b32_alphabet"

fun quantum_acc :: "nat \<Rightarrow> string \<Rightarrow> nat option" where
  "quantum_acc acc [] = Some acc"
| "quantum_acc acc (c # cs) =
     (case b32rev c of None \<Rightarrow> None | Some v \<Rightarrow> quantum_acc (acc * 32 + v) cs)"

text \<open>The bytes of all groups, and the accumulator of the last one.\<close>

fun decode_quanta :: "nat \<Rightarrow> string \<Rightarrow> (nat list \<times> nat) option" where
  "decode_quanta n s =
     (if n = 0 then Some ([], 0)
      else case quantum_acc 0 (take 8 s) of
             None \<Rightarrow> None
           | Some acc \<Rightarrow>
               if n = 1 then Some (to_bytes 5 acc, acc)
               else (case decode_quanta (n - 1) (drop 8 s) of
                       None \<Rightarrow> None
                     | Some (bs, last_acc) \<Rightarrow> Some (to_bytes 5 acc @ bs, last_acc)))"

declare decode_quanta.simps [simp del]

definition b32decode :: "string \<Rightarrow> error + nat list" where
  "b32decode s0 =
     (let s1 = map upper_char s0;
          l = length s1;
          s = rev (dropWhile (\<lambda>c. c = CHR ''='') (rev s1));
          padchars = l - length s
      in case decode_quanta ((length s + 7) div 8) s of
           None \<Rightarrow> Inl BinasciiError
         | Some (decoded, acc) \<Rightarrow>
             if l mod 8 = 0 \<and> padchars \<in> set [0, 1, 3, 4, 6] then
               (if padchars = 0 then Inr decoded
                else if decoded = [] then Inr decoded
                else Inr (take (length decoded - 5) decoded @
                          take ((43 - 5 * padchars) div 8) (to_bytes 5 (acc * 32 ^ padchars))))
             else Inl BinasciiError)"

text \<open>\<^verbatim>\<open>OTP.byte_secret\<close>: the secret is padded with \<^verbatim>\<open>=\<close> to a multiple of eight
  characters and decoded.\<close>

definition byte_secret :: "string \<Rightarrow> error + nat list" where
  "byte_secret secret =
     (let missing_padding = length secret mod 8
      in b32decode (if missing_padding \<noteq> 0 then secret @ replicate (8 - missing_padding) CHR ''=''
                    else secret))"

text \<open>
  \<^verbatim>\<open>OTP.generate_otp\<close> with the default six digits.  The keyed hash, \<^verbatim>\<open>hmac.new(key, msg,
  hashlib.sha1).digest()\<close>, is the argument \<open>hmac\<close>; its 20-byte digest is given as the
  number its bytes spell, most significant first, and \<open>digest_byte h i\<close> is
  \<^verbatim>\<open>hmac_hash[i]\<close>.
\<close>

type_synonym hmac_sha1 = "nat list \<Rightarrow> nat list \<Rightarrow> nat"

definition digest_byte :: "nat \<Rightarrow> nat \<Rightarrow> nat" where
  "digest_byte h i = (h div 256 ^ (19 - i)) mod 256"

definition generate_otp :: "hmac_sha1 \<Rightarrow> string \<Rightarrow> int \<Rightarrow> error + string" where
  "generate_otp hmac secret input =
     (if input < 0 then Inl ValueError
      else case byte_secret secret of
             Inl e \<Rightarrow> Inl e
           | Inr key \<Rightarrow>
               (let hmac_hash = hmac key (to_bytes 8 (nat input));
                    offset = digest_byte hmac_hash 19 mod 16;
                    code = (digest_byte hmac_hash offset mod 128) * 2 ^ 24 +
                           digest_byte hmac_hash (offset + 1) * 2 ^ 16 +
                           digest_byte hmac_hash (offset + 2) * 2 ^ 8 +
                           digest_byte hmac_hash (offset + 3);
                    str_code = str_nat (10000000000 + code mod 10 ^ 6)
                in Inr (drop (length str_code - 6) str_code)))"

text \<open>\<^verbatim>\<open>TOTP.timecode\<close>, \<^verbatim>\<open>TOTP.at\<close> and \<^verbatim>\<open>TOTP.verify\<close> with the default interval of 30
  seconds; \<open>for_time\<close> is the reading of the clock.\<close>

definition timecode :: "datetime \<Rightarrow> int" where
  "timecode for_time = trunc (of_int (timegm for_time) / 30)"

definition totp_at :: "hmac_sha1 \<Rightarrow> string \<Rightarrow> datetime \<Rightarrow> int \<Rightarrow> error + string" where
  "totp_at hmac secret for_time counter_offset =
     generate_otp hmac secret (timecode for_time + counter_offset)"

fun verify_window :: "hmac_sha1 \<Rightarrow> string \<Rightarrow> string \<Rightarrow> datetime \<Rightarrow> int list \<Rightarrow> error + bool" where
  "verify_window hmac secret otp for_time [] = Inr False"
| "verify_window hmac secret otp for_time (i # offsets) =
     (case totp_at hmac secret for_time i of
        Inl e \<Rightarrow> Inl e
      | Inr code \<Rightarrow>
          if otp = code then Inr True else verify_window hmac secret otp for_time offsets)"

definition totp_verify :: "hmac_sha1 \<Rightarrow> string \<Rightarrow> string \<Rightarrow> datetime \<Rightarrow> int \<Rightarrow> error + bool" where
  "totp_verify hmac secret otp for_time valid_window =
     (if valid_window \<noteq> 0
      then verify_window hmac secret otp for_time [- valid_window .. valid_window]
      else case totp_at hmac secret for_time 0 of
             Inl e \<Rightarrow> Inl e
           | Inr code \<Rightarrow> Inr (otp = code))"

text \<open>What \<^verbatim>\<open>generate_totp_secret\<close>, that is \<^verbatim>\<open>pyotp.random_base32()\<close>, can return: 32
  characters drawn from the base32 alphabet.\<close>

definition is_random_base32 :: "string \<Rightarrow> bool" where
  "is_random_base32 s = (length s = 32 \<and> list_all (\<lambda>c. c \<in> set b32_alphabet) s)"

text \<open>\<^verbatim>\<open>verify_totp_token\<close> of \<^verbatim>\<open>app/core/security.py\<close>: \<^verbatim>\<open>pyotp.TOTP(secret).verify(token)\<close>,
  so with pyotp's default \<^verbatim>\<open>valid_window=0\<close>.\<close>

definition verify_totp_token :: "hmac_sha1 \<Rightarrow> datetime \<Rightarrow> string \<Rightarrow> string \<Rightarrow> error + bool" where
  "verify_totp_token hmac now secret token = totp_verify hmac secret token now 0"

text \<open>
  The keyed hash at the test vectors of RFC 4226, appendix D (secret
  \<^verbatim>\<open>12345678901234567890\<close>, counters 1 and 2), for the worked examples; elsewhere it is
  left at 0.
\<close>

definition rfc4226_hmac :: hmac_sha1 where
  "rfc4226_hmac key msg =
     (if key = map of_char ''12345678901234567890'' then
        (if msg = [0, 0, 0, 0, 0, 0, 0, 1] then 0x75a48a19d4cbe100644e8ac1397eea747a2d33ab
         else if msg = [0, 0, 0, 0, 0, 0, 0, 2] then 0x0bacb7fa082fef30782211938bc1c5e70416ff44
         else 0)
      else 0)"

section \<open>The json module\<close>

text \<open>
  \<^verbatim>\<open>json.loads\<close> and the renderer of Starlette's \<^verbatim>\<open>JSONResponse\<close>
  (\<^verbatim>\<open>json.dumps(content, ensure_ascii=False, separators=(",", ":"))\<close>) are arguments of
  the functions that call them: \<open>loads\<close> returns \<open>None\<close> where Python raises (also
  where decoding the bytes fails), \<open>dumps\<close> gives the bytes of the body and is \<open>None\<close>
  where the renderer raises, as it does on NaN and on the infinities.  \<open>float_repr\<close> is
  the text Python writes for a finite float.
\<close>

record json_module =
  loads :: "string \<Rightarrow> json option"
  dumps :: "json \<Rightarrow> string option"
  float_repr :: "rat \<Rightarrow> string"

text \<open>
  A reader and a writer for JSON text, for the worked examples.  They cover ASCII
  documents: objects, arrays, strings with the two-character escapes, integers and
  decimal fractions, \<^verbatim>\<open>true\<close>, \<^verbatim>\<open>false\<close>, \<^verbatim>\<open>null\<close> and Python's \<^verbatim>\<open>NaN\<close>, \<^verbatim>\<open>Infinity\<close> and
  \<^verbatim>\<open>-Infinity\<close>.  The reader returns \<open>None\<close> on anything else.
\<close>

definition str_int :: "int \<Rightarrow> string" where
  "str_int i = (if i < 0 then CHR ''-'' # str_nat (nat (- i)) else str_nat (nat i))"

fun frac_digits :: "nat \<Rightarrow> rat \<Rightarrow> string" where
  "frac_digits n q =
     (if n = 0 then []
      else if q = 0 then []
      else (''0123456789'' ! nat \<lfloor>q * 10\<rfloor>) # frac_digits (n - 1) (q * 10 - of_int \<lfloor>q * 10\<rfloor>))"

declare frac_digits.simps [simp del]

definition str_float :: "rat \<Rightarrow> string" where
  "str_float q =
     (let a = \<bar>q\<bar>; whole = \<lfloor>a\<rfloor>; digits = frac_digits 17 (a - of_int whole)
      in (if q < 0 then ''-'' else '''') @ str_nat (nat whole) @ ''.'' @
         (if digits = [] then ''0'' else digits))"

definition escape_char :: "char \<Rightarrow> string" where
  \<open>escape_char c =
     (case map_of
             [(CHR ''"'', [CHR 0x5C, CHR ''"'']), (CHR 0x5C, [CHR 0x5C, CHR 0x5C]),
              (CHR 0x0A, [CHR 0x5C, CHR ''n'']), (CHR 0x0D, [CHR 0x5C, CHR ''r'']),
              (CHR 0x09, [CHR 0x5C, CHR ''t'']), (CHR 0x08, [CHR 0x5C, CHR ''b'']),
              (CHR 0x0C, [CHR 0x5C, CHR ''f''])] c of
        Some e \<Rightarrow> e
      | None \<Rightarrow>
          if (of_char c :: nat) < 32
          then [CHR 0x5C, CHR ''u'', CHR ''0'', CHR ''0'',
                ''0123456789abcdef'' ! (of_char c div 16),
                ''0123456789abcdef'' ! (of_char c mod 16)]
          else [c])\<close>

definition dumps_str :: "string \<Rightarrow> string" where
  \<open>dumps_str s = ''"'' @ concat (map escape_char s) @ ''"''\<close>

fun join :: "string \<Rightarrow> string list \<Rightarrow> string" where
  "join sep [] = []"
| "join sep [x] = x"
| "join sep (x # y # ys) = x @ sep @ join sep (y # ys)"

fun py_dumps :: "json \<Rightarrow> string option" where
  "py_dumps JNull = Some ''null''"
| "py_dumps (JBool b) = Some (if b then ''true'' else ''false'')"
| "py_dumps (JInt i) = Some (str_int i)"
| "py_dumps (JFloat q) = Some (str_float q)"
| "py_dumps JInfinity = None"
| "py_dumps JNegInfinity = None"
| "py_dumps JNaN = None"
| "py_dumps (JStr s) = Some (dumps_str s)"
| "py_dumps (JList xs) =
     (case those (map py_dumps xs) of
        None \<Rightarrow> None
      | Some items \<Rightarrow> Some (''['' @ join '','' items @ '']''))"
| "py_dumps (JObj d) =
     (case those (map (\<lambda>p. map_option (\<lambda>v. dumps_str (fst p) @ '':'' @ v) (py_dumps (snd p))) d) of
        None \<Rightarrow> None
      | Some items \<Rightarrow> Some (''{'' @ join '','' items @ ''}''))"

definition skip_ws :: "string \<Rightarrow> string" where
  "skip_ws s = dropWhile (\<lambda>c. c \<in> set [CHR '' '', CHR 0x09, CHR 0x0A, CHR 0x0D]) s"

definition unescape :: "char \<Rightarrow> char option" where
  \<open>unescape e =
     map_of
       [(CHR ''"'', CHR ''"''), (CHR 0x5C, CHR 0x5C), (CHR ''/'', CHR ''/''),
        (CHR ''n'', CHR 0x0A), (CHR ''r'', CHR 0x0D), (CHR ''t'', CHR 0x09),
        (CHR ''b'', CHR 0x08), (CHR ''f'', CHR 0x0C)] e\<close>

text \<open>The characters of a string after its opening quote, up to the closing one.\<close>

fun scan_string :: "string \<Rightarrow> string \<Rightarrow> (string \<times> string) option" where
  "scan_string acc [] = None"
| \<open>scan_string acc (c # cs) =
     (if c = CHR ''"'' then Some (rev acc, cs)
      else if c = CHR 0x5C then
        (case cs of
           [] \<Rightarrow> None
         | e # rest \<Rightarrow>
             (case unescape e of None \<Rightarrow> None | Some d \<Rightarrow> scan_string (d # acc) rest))
      else if (of_char c :: nat) < 32 then None
      else scan_string (c # acc) cs)\<close>

definition digits_nat :: "string \<Rightarrow> nat" where
  "digits_nat ds = foldl (\<lambda>n c. n * 10 + nat (digit_val c)) 0 ds"

text \<open>A number: an optional minus, an integer part without a leading zero, an optional
  fraction.\<close>

definition scan_number :: "string \<Rightarrow> (json \<times> string) option" where
  "scan_number s =
     (let negative = (s \<noteq> [] \<and> hd s = CHR ''-'');
          s1 = (if negative then tl s else s);
          whole = takeWhile is_digit s1;
          s2 = dropWhile is_digit s1;
          sign = (if negative then - 1 else 1)
      in if whole = [] then None
         else if hd whole = CHR ''0'' \<and> length whole > 1 then None
         else if s2 \<noteq> [] \<and> hd s2 = CHR ''.'' then
           (let frac = takeWhile is_digit (tl s2)
            in if frac = [] then None
               else Some (JFloat (of_int sign *
                            (of_nat (digits_nat whole) +
                             of_nat (digits_nat frac) / 10 ^ length frac)),
                          dropWhile is_digit (tl s2)))
         else Some (JInt (sign * int (digits_nat whole)), s2))"

text \<open>The values, the elements of an array after \<^verbatim>\<open>[\<close> and the members of an object
  after \<^verbatim>\<open>{\<close>; \<open>n\<close> bounds the depth of the calls by the length of the text.\<close>

fun scan_value :: "nat \<Rightarrow> string \<Rightarrow> (json \<times> string) option"
  and scan_elements :: "nat \<Rightarrow> json list \<Rightarrow> string \<Rightarrow> (json \<times> string) option"
  and scan_members :: "nat \<Rightarrow> json pydict \<Rightarrow> string \<Rightarrow> (json \<times> string) option" where
  \<open>scan_value n s =
     (if n = 0 then None
      else case s of
        [] \<Rightarrow> None
      | c # cs \<Rightarrow>
          if c = CHR ''"'' then
            (case scan_string [] cs of None \<Rightarrow> None | Some (t, rest) \<Rightarrow> Some (JStr t, rest))
          else if c = CHR ''['' then
            (case skip_ws cs of
               [] \<Rightarrow> None
             | d # ds \<Rightarrow> if d = CHR '']'' then Some (JList [], ds)
                         else scan_elements (n - 1) [] (d # ds))
          else if c = CHR ''{'' then
            (case skip_ws cs of
               [] \<Rightarrow> None
             | d # ds \<Rightarrow> if d = CHR ''}'' then Some (JObj [], ds)
                         else scan_members (n - 1) [] (d # ds))
          else if take 4 s = ''true'' then Some (JBool True, drop 4 s)
          else if take 5 s = ''false'' then Some (JBool False, drop 5 s)
          else if take 4 s = ''null'' then Some (JNull, drop 4 s)
          else if take 3 s = ''NaN'' then Some (JNaN, drop 3 s)
          else if take 8 s = ''Infinity'' then Some (JInfinity, drop 8 s)
          else if take 9 s = ''-Infinity'' then Some (JNegInfinity, drop 9 s)
          else scan_number s)\<close>
| \<open>scan_elements n acc s =
     (if n = 0 then None
      else case scan_value (n - 1) s of
        None \<Rightarrow> None
      | Some (v, rest) \<Rightarrow>
          (case skip_ws rest of
             [] \<Rightarrow> None
           | d # ds \<Rightarrow>
               if d = CHR '']'' then Some (JList (acc @ [v]), ds)
               else if d = CHR '','' then scan_elements (n - 1) (acc @ [v]) (skip_ws ds)
               else None))\<close>
| \<open>scan_members n acc s =
     (if n = 0 then None
      else case s of
        [] \<Rightarrow> None
      | q # qs \<Rightarrow>
          if q = CHR ''"'' then
            (case scan_string [] qs of
               None \<Rightarrow> None
             | Some (k, rest) \<Rightarrow>
                 (case skip_ws rest of
                    [] \<Rightarrow> None
                  | c # cs \<Rightarrow>
                      if c = CHR '':'' then
                        (case scan_value (n - 1) (skip_ws cs) of
                           None \<Rightarrow> None
                         | Some (v, rest') \<Rightarrow>
                             (case skip_ws rest' of
                                [] \<Rightarrow> None
                              | d # ds \<Rightarrow>
                                  if d = CHR ''}'' then Some (JObj (dict_set acc k v), ds)
                                  else if d = CHR '','' then
                                    scan_members (n - 1) (dict_set acc k v) (skip_ws ds)
                                  else None))
                      else None))
          else None)\<close>

declare scan_value.simps [simp del] scan_elements.simps [simp del] scan_members.simps [simp del]

definition py_loads :: "string \<Rightarrow> json option" where
  "py_loads s =
     (case scan_value (2 * length s + 1) (skip_ws s) of
        None \<Rightarrow> None
      | Some (v, rest) \<Rightarrow> if skip_ws rest = [] then Some v else None)"

definition py_json :: json_module where
  "py_json = \<lparr> loads = py_loads, dumps = py_dumps, float_repr = str_float \<rparr>"

section \<open>Requests, responses and the request scope\<close>

text \<open>
  What the middlewares read of a Starlette \<^verbatim>\<open>Request\<close>.  The headers are the raw list
  of the ASGI scope, names in lower case; \<^verbatim>\<open>request.headers.get(name)\<close> lower-cases the
  name it is given and returns the first entry.
\<close>

record request =
  http_method :: string
  url :: string
  path :: string
  query_params :: "(string \<times> string) list"
  headers :: "(string \<times> string) list"
  client_host :: "string option"

definition headers_get :: "(string \<times> string) list \<Rightarrow> string \<Rightarrow> string option" where
  "headers_get hs key = map_of hs (lower key)"

definition headers_get_default :: "(string \<times> string) list \<Rightarrow> string \<Rightarrow> string \<Rightarrow> string" where
  "headers_get_default hs key dflt = (case headers_get hs key of None \<Rightarrow> dflt | Some v \<Rightarrow> v)"

text \<open>A response: whether it is an instance of \<^verbatim>\<open>JSONResponse\<close> (or of a subclass), of
  \<^verbatim>\<open>StreamingResponse\<close> or of another class, its status code, its raw header list and
  its body bytes (for a streaming response, the bytes that its iterator yields).\<close>

datatype response_class = JSONResponse | StreamingResponse | OtherResponse

record response =
  cls :: response_class
  status_code :: int
  raw_headers :: "(string \<times> string) list"
  body :: string

text \<open>\<^verbatim>\<open>response.headers[key] = v\<close> (\<^verbatim>\<open>MutableHeaders.__setitem__\<close>): the first entry of
  that name is replaced and later ones are removed; a new name goes last.\<close>

fun set_header :: "(string \<times> string) list \<Rightarrow> string \<Rightarrow> string \<Rightarrow> (string \<times> string) list" where
  "set_header [] k v = [(lower k, v)]"
| "set_header (h # hs) k v =
     (if fst h = lower k then (lower k, v) # filter (\<lambda>p. fst p \<noteq> lower k) hs
      else h # set_header hs k v)"

text \<open>\<^verbatim>\<open>dict(response.headers)\<close>: one entry per name, with the value of the first.\<close>

fun dict_of_headers :: "(string \<times> string) list \<Rightarrow> (string \<times> string) list" where
  "dict_of_headers [] = []"
| "dict_of_headers (h # hs) = h # dict_of_headers (filter (\<lambda>p. fst p \<noteq> fst h) hs)"

text \<open>\<^verbatim>\<open>JSONResponse(content=..., status_code=..., headers=...)\<close>: the body is the rendered
  content; the given headers are kept (their names lower-cased), and
  \<^verbatim>\<open>content-length\<close> and \<^verbatim>\<open>content-type\<close> are added only when the given headers do not
  name them.  \<open>None\<close> is the renderer's exception.\<close>

definition init_headers :: "int \<Rightarrow> string \<Rightarrow> (string \<times> string) list \<Rightarrow> (string \<times> string) list" where
  "init_headers status rendered hs =
     (let raw = map (\<lambda>p. (lower (fst p), snd p)) hs;
          keys = map fst raw;
          raw = (if ''content-length'' \<in> set keys then raw
                 else if status < 200 then raw
                 else if status \<in> set [204, 304] then raw
                 else raw @ [(''content-length'', str_nat (length rendered))]);
          raw = (if ''content-type'' \<in> set keys then raw
                 else raw @ [(''content-type'', ''application/json'')])
      in raw)"

definition json_response ::
    "json_module \<Rightarrow> json \<Rightarrow> int \<Rightarrow> (string \<times> string) list \<Rightarrow> response option" where
  "json_response json content status hs =
     (case dumps json content of
        None \<Rightarrow> None
      | Some rendered \<Rightarrow>
          Some \<lparr> cls = JSONResponse, status_code = status,
                 raw_headers = init_headers status rendered hs,
                 body = rendered \<rparr>)"

text \<open>A request that carries nothing but the given headers, for the worked examples.\<close>

definition bare_request :: "(string \<times> string) list \<Rightarrow> request" where
  "bare_request hs =
     \<lparr> http_method = ''GET'', url = ''http://localhost/'', path = ''/'', query_params = [],
       headers = hs, client_host = None \<rparr>"

section \<open>app/utils/accessibility.py\<close>

definition get_accessibility_context :: "request \<Rightarrow> json pydict" where
  "get_accessibility_context request =
     [(''screen_reader'', JBool (headers_get (headers request) ''X-Screen-Reader'' = Some ''true'')),
      (''high_contrast'', JBool (headers_get (headers request) ''X-High-Contrast'' = Some ''true'')),
      (''reduced_motion'', JBool (headers_get (headers request) ''X-Reduced-Motion'' = Some ''true'')),
      (''keyboard_navigation'',
         JBool (headers_get (headers request) ''X-Keyboard-Navigation'' = Some ''true'')),
      (''font_size'', JStr (headers_get_default (headers request) ''X-Font-Size'' ''16'')),
      (''language'', JStr (headers_get_default (headers request) ''Accept-Language'' ''en'')),
      (''user_agent'', JStr (headers_get_default (headers request) ''User-Agent'' ''''))]"

text \<open>\<^verbatim>\<open>sub in s\<close> on strings.\<close>

primrec str_in :: "string \<Rightarrow> string \<Rightarrow> bool" where
  "str_in sub [] = (sub = [])"
| "str_in sub (c # cs) = (if prefix sub (c # cs) then True else str_in sub cs)"

text \<open>The first entry of a replacement table whose key occurs in the message.\<close>

fun first_match :: "(string \<times> string) list \<Rightarrow> string \<Rightarrow> string option" where
  "first_match [] message = None"
| "first_match (p # ps) message =
     (if str_in (fst p) message then Some (snd p) else first_match ps message)"

definition screen_reader_replacements :: "(string \<times> string) list" where
  "screen_reader_replacements =
     [(''401'', ''Authentication required. Please log in to continue.''),
      (''403'', ''Access denied. You don't have permission for this action.''),
      (''404'', ''The requested resource was not found.''),
      (''422'', ''The submitted data contains errors. Please check and try again.''),
      (''500'', ''A server error occurred. Please try again later or contact support.'')]"

definition user_friendly_replacements :: "(string \<times> string) list" where
  "user_friendly_replacements =
     [(''validation error'', ''Please check the information you entered and try again.''),
      (''unauthorized'', ''Please sign in to access this feature.''),
      (''forbidden'', ''You don't have permission to perform this action.''),
      (''not found'', ''The item you're looking for couldn't be found.''),
      (''internal server error'', ''Something went wrong. Please try again in a moment.'')]"

text \<open>
  The two message rewriters take whatever \<^verbatim>\<open>error["message"]\<close> holds; \<open>None\<close> is an
  exception.  \<^verbatim>\<open>code in message\<close> is a substring test on a string, a membership test on
  a list and a key test on a dict, and a \<^verbatim>\<open>TypeError\<close> on \<^verbatim>\<open>None\<close>, a boolean or a
  number; \<^verbatim>\<open>message.lower()\<close> exists on strings only.
\<close>

fun first_member :: "(string \<times> string) list \<Rightarrow> (string \<Rightarrow> bool) \<Rightarrow> string option" where
  "first_member [] holds = None"
| "first_member (p # ps) holds = (if holds (fst p) then Some (snd p) else first_member ps holds)"

definition create_screen_reader_message :: "json \<Rightarrow> json option" where
  "create_screen_reader_message message =
     (case message of
        JStr m \<Rightarrow>
          (case first_match screen_reader_replacements m of
             Some friendly \<Rightarrow> Some (JStr friendly) | None \<Rightarrow> Some message)
      | JList xs \<Rightarrow>
          (case first_member screen_reader_replacements (\<lambda>code. JStr code \<in> set xs) of
             Some friendly \<Rightarrow> Some (JStr friendly) | None \<Rightarrow> Some message)
      | JObj d \<Rightarrow>
          (case first_member screen_reader_replacements (\<lambda>code. dict_in code d) of
             Some friendly \<Rightarrow> Some (JStr friendly) | None \<Rightarrow> Some message)
      | _ \<Rightarrow> None)"

definition create_user_friendly_message :: "json \<Rightarrow> json option" where
  "create_user_friendly_message message =
     (case message of
        JStr m \<Rightarrow>
          (case first_match user_friendly_replacements (lower m) of
             Some friendly \<Rightarrow> Some (JStr friendly) | None \<Rightarrow> Some message)
      | _ \<Rightarrow> None)"

text \<open>
  The request scope that the middlewares and the handler share, and what they do to the
  world: \<open>clock\<close> is the reading of \<^verbatim>\<open>time.time()\<close>, \<open>accessibility_context\<close> and
  \<open>user_id\<close> are the attributes of \<^verbatim>\<open>request.state\<close> (\<open>None\<close> when unset), and \<open>logged\<close>
  is what the loggers were given.
\<close>

record request_info =
  ri_method :: string
  ri_url :: string
  ri_path :: string
  ri_query_params :: "(string \<times> string) list"
  ri_user_agent :: string
  ri_ip_address :: "string option"
  ri_timestamp :: rat
  ri_accessibility :: "bool pydict"
  ri_empowerment_context :: "bool pydict"

record response_info =
  rs_status_code :: int
  rs_process_time :: rat
  rs_headers :: "(string \<times> string) list"
  rs_success :: bool

record empowerment_metrics =
  screen_reader_used :: bool
  high_contrast_used :: bool
  keyboard_navigation_used :: bool
  accessibility_score :: rat
  features_accessed :: nat
  social_security_accessed :: bool
  housing_accessed :: bool
  funding_accessed :: bool
  jobs_accessed :: bool
  advocacy_accessed :: bool
  response_time :: rat
  success :: bool
  performance_status_code :: int
  barrier_reduced :: bool
  opportunity_accessed :: bool
  support_provided :: bool

record analytics_data =
  event_type :: string
  event_request :: request_info
  event_response :: response_info
  event_user_id :: "json option"
  session_id :: "string option"
  metrics :: empowerment_metrics

datatype log_record = LogInfo analytics_data | LogWarning string | LogError string

record world =
  clock :: rat
  accessibility_context :: "json pydict option"
  user_id :: "json option"
  logged :: "log_record list"

text \<open>An ASGI application as a middleware sees it through \<^verbatim>\<open>call_next\<close>: it answers a
  request with a response or raises, and changes the world.\<close>

type_synonym app = "request \<Rightarrow> world \<Rightarrow> (error + response) \<times> world"

text \<open>
  The \<^verbatim>\<open>call_next\<close> that Starlette's \<^verbatim>\<open>BaseHTTPMiddleware\<close> hands to \<^verbatim>\<open>dispatch\<close>.  It runs
  the inner application and builds a streaming response from the messages that the
  application sent: the status and the raw headers of its response, and its body as the
  stream.  What \<^verbatim>\<open>dispatch\<close> gets is therefore never an instance of \<^verbatim>\<open>JSONResponse\<close>,
  whatever the handler returned.  An exception of the inner application is raised again.
\<close>

definition starlette_call_next :: "app \<Rightarrow> app" where
  "starlette_call_next inner request w =
     (case inner request w of
        (Inl e, w1) \<Rightarrow> (Inl e, w1)
      | (Inr response, w1) \<Rightarrow> (Inr (response\<lparr>cls := StreamingResponse\<rparr>), w1))"

text \<open>The block that \<^verbatim>\<open>_enhance_json_response\<close> stores under \<^verbatim>\<open>_accessibility\<close>.\<close>

definition accessibility_block :: "json pydict \<Rightarrow> json" where
  "accessibility_block ctx =
     JObj [(''wcag_level'', JStr ''AA''),
           (''screen_reader_optimized'', JBool True),
           (''keyboard_accessible'', JBool True),
           (''high_contrast_available'', JBool True),
           (''context'', JObj ctx)]"

text \<open>The body of the \<^verbatim>\<open>try\<close> between \<^verbatim>\<open>json.loads\<close> and the new response: what becomes of
  the parsed data; \<open>None\<close> is an exception.  \<^verbatim>\<open>error\<close> is the object inside \<^verbatim>\<open>data\<close>, so
  what is stored in it is stored in \<^verbatim>\<open>data\<close>.\<close>

definition enhance_data :: "json pydict \<Rightarrow> json \<Rightarrow> json option" where
  "enhance_data ctx data =
     (case data of
        JObj d0 \<Rightarrow>
          (let d = dict_set d0 ''_accessibility'' (accessibility_block ctx)
           in case dict_get d ''error'' of
                Some (JObj error) \<Rightarrow>
                  (case dict_get error ''message'' of
                     None \<Rightarrow> Some (JObj d)
                   | Some message \<Rightarrow>
                       (case create_screen_reader_message message of
                          None \<Rightarrow> None
                        | Some srm \<Rightarrow>
                            (case create_user_friendly_message message of
                               None \<Rightarrow> None
                             | Some ufm \<Rightarrow>
                                 Some (JObj (dict_set d ''error''
                                   (JObj (dict_set (dict_set error ''screen_reader_message'' srm)
                                            ''user_friendly_message'' ufm)))))))
              | _ \<Rightarrow> Some (JObj d))
      | _ \<Rightarrow> Some data)"

definition enhance_failed :: "world \<Rightarrow> world" where
  "enhance_failed w =
     w\<lparr>logged := logged w @
          [LogWarning ''Failed to enhance response with accessibility features'']\<rparr>"

definition enhance_json_response :: "json_module \<Rightarrow> world \<Rightarrow> response \<Rightarrow> response \<times> world" where
  "enhance_json_response json w response =
     (let content = (if body response \<noteq> [] then body response else ''{}'')
      in case loads json content of
           None \<Rightarrow> (response, enhance_failed w)
         | Some data \<Rightarrow>
             (let ctx = (case accessibility_context w of None \<Rightarrow> [] | Some c \<Rightarrow> c)
              in case enhance_data ctx data of
                   None \<Rightarrow> (response, enhance_failed w)
                 | Some enhanced \<Rightarrow>
                     (case json_response json enhanced (status_code response)
                             (dict_of_headers (raw_headers response)) of
                        None \<Rightarrow> (response, enhance_failed w)
                      | Some new_response \<Rightarrow> (new_response, w))))"

definition add_accessibility_headers :: "response \<Rightarrow> response" where
  "add_accessibility_headers response =
     response\<lparr>raw_headers :=
       foldl (\<lambda>hs p. set_header hs (fst p) (snd p)) (raw_headers response)
         [(''X-Accessibility-Compliant'', ''WCAG-2.1-AA''),
          (''X-Screen-Reader-Optimized'', ''true''),
          (''X-Keyboard-Accessible'', ''true''),
          (''X-High-Contrast-Support'', ''true''),
          (''X-Content-Language'', ''en'')]\<rparr>"

definition accessibility_dispatch :: "json_module \<Rightarrow> app \<Rightarrow> app" where
  "accessibility_dispatch json call_next request w =
     (let w0 = w\<lparr>accessibility_context := Some (get_accessibility_context request)\<rparr>
      in case call_next request w0 of
           (Inl e, w1) \<Rightarrow> (Inl e, w1)
         | (Inr response, w1) \<Rightarrow>
             (case (if cls response = JSONResponse then enhance_json_response json w1 response
                    else (response, w1)) of
                (response', w2) \<Rightarrow> (Inr (add_accessibility_headers response'), w2)))"

section \<open>app/utils/analytics.py\<close>

definition any_in :: "string list \<Rightarrow> string \<Rightarrow> bool" where
  "any_in patterns p = list_ex (\<lambda>pattern. str_in pattern p) patterns"

definition detect_empowerment_context :: "string \<Rightarrow> bool pydict" where
  "detect_empowerment_context p =
     [(''social_security'', any_in [''/social-security'', ''/benefits'', ''/assistance''] p),
      (''housing'', any_in [''/housing'', ''/accommodation'', ''/accessibility-housing''] p),
      (''business_funding'', any_in [''/funding'', ''/grants'', ''/business-support''] p),
      (''jobs'', any_in [''/jobs'', ''/employment'', ''/careers''] p),
      (''non_discrimination'', any_in [''/report'', ''/discrimination'', ''/advocacy''] p),
      (''accessibility'', any_in [''/accessibility'', ''/wcag'', ''/assistive''] p),
      (''ai_assistance'', any_in [''/ai'', ''/assistance'', ''/recommendations''] p)]"

definition extract_request_info :: "request \<Rightarrow> world \<Rightarrow> request_info" where
  "extract_request_info request w =
     \<lparr> ri_method = http_method request,
       ri_url = url request,
       ri_path = path request,
       ri_query_params = query_params request,
       ri_user_agent = headers_get_default (headers request) ''User-Agent'' '''',
       ri_ip_address = client_host request,
       ri_timestamp = clock w,
       ri_accessibility =
         [(''screen_reader'', headers_get (headers request) ''X-Screen-Reader'' = Some ''true''),
          (''high_contrast'', headers_get (headers request) ''X-High-Contrast'' = Some ''true''),
          (''keyboard_navigation'',
             headers_get (headers request) ''X-Keyboard-Navigation'' = Some ''true''),
          (''reduced_motion'', headers_get (headers request) ''X-Reduced-Motion'' = Some ''true'')],
       ri_empowerment_context = detect_empowerment_context (path request) \<rparr>"

definition extract_response_info :: "response \<Rightarrow> rat \<Rightarrow> response_info" where
  "extract_response_info response process_time =
     \<lparr> rs_status_code = status_code response,
       rs_process_time = process_time,
       rs_headers = dict_of_headers (raw_headers response),
       rs_success = (200 \<le> status_code response \<and> status_code response < 400) \<rparr>"

text \<open>\<^verbatim>\<open>d.get(k, False)\<close>, \<^verbatim>\<open>any(d.values())\<close> and \<^verbatim>\<open>sum(d.values())\<close> on a dict of
  booleans.\<close>

definition flag :: "bool pydict \<Rightarrow> string \<Rightarrow> bool" where
  "flag d k = (case dict_get d k of None \<Rightarrow> False | Some b \<Rightarrow> b)"

definition any_value :: "bool pydict \<Rightarrow> bool" where
  "any_value d = list_ex snd d"

definition sum_values :: "bool pydict \<Rightarrow> nat" where
  "sum_values d = length (filter snd d)"

definition detect_barrier_reduction :: "request_info \<Rightarrow> response_info \<Rightarrow> bool" where
  "detect_barrier_reduction request_info response_info =
     (any_value (ri_accessibility request_info) \<and>
      any_value (ri_empowerment_context request_info) \<and> rs_success response_info)"

definition detect_opportunity_access :: "request_info \<Rightarrow> response_info \<Rightarrow> bool" where
  "detect_opportunity_access request_info response_info =
     (any_in [''/jobs'', ''/funding'', ''/housing'', ''/grants''] (ri_path request_info) \<and>
      rs_success response_info)"

definition detect_support_provision :: "request_info \<Rightarrow> response_info \<Rightarrow> bool" where
  "detect_support_provision request_info response_info =
     (any_in [''/assistance'', ''/support'', ''/help'', ''/ai'', ''/recommendations'']
        (ri_path request_info) \<and>
      rs_success response_info)"

definition calculate_empowerment_metrics :: "request_info \<Rightarrow> response_info \<Rightarrow> empowerment_metrics" where
  "calculate_empowerment_metrics request_info response_info =
     (let empowerment_context = ri_empowerment_context request_info;
          accessibility = ri_accessibility request_info
      in \<lparr> screen_reader_used = flag accessibility ''screen_reader'',
           high_contrast_used = flag accessibility ''high_contrast'',
           keyboard_navigation_used = flag accessibility ''keyboard_navigation'',
           accessibility_score =
             (if accessibility \<noteq> []
              then of_nat (sum_values accessibility) / of_nat (length accessibility)
              else 0),
           features_accessed = sum_values empowerment_context,
           social_security_accessed = flag empowerment_context ''social_security'',
           housing_accessed = flag empowerment_context ''housing'',
           funding_accessed = flag empowerment_context ''business_funding'',
           jobs_accessed = flag empowerment_context ''jobs'',
           advocacy_accessed = flag empowerment_context ''non_discrimination'',
           response_time = rs_process_time response_info,
           success = rs_success response_info,
           performance_status_code = rs_status_code response_info,
           barrier_reduced = detect_barrier_reduction request_info response_info,
           opportunity_accessed = detect_opportunity_access request_info response_info,
           support_provided = detect_support_provision request_info response_info \<rparr>)"

definition log_analytics_event :: "request_info \<Rightarrow> response_info \<Rightarrow> request \<Rightarrow> world \<Rightarrow> world" where
  "log_analytics_event request_info response_info request w =
     (let analytics =
            \<lparr> event_type = ''api_request'',
              event_request = request_info,
              event_response = response_info,
              event_user_id = user_id w,
              session_id = headers_get (headers request) ''X-Session-ID'',
              metrics = calculate_empowerment_metrics request_info response_info \<rparr>
      in w\<lparr>logged := logged w @ [LogInfo analytics]\<rparr>)"

definition analytics_dispatch :: "app \<Rightarrow> app" where
  "analytics_dispatch call_next request w =
     (let start_time = clock w;
          request_info = extract_request_info request w
      in case call_next request w of
           (Inl e, w1) \<Rightarrow> (Inl e, w1)
         | (Inr response, w1) \<Rightarrow>
             (let process_time = clock w1 - start_time;
                  response_info = extract_response_info response process_time
              in (Inr response, log_analytics_event request_info response_info request w1)))"

section \<open>app/main.py: the middleware stack\<close>

definition add_security_headers :: "app \<Rightarrow> app" where
  "add_security_headers call_next request w =
     (case call_next request w of
        (Inl e, w1) \<Rightarrow> (Inl e, w1)
      | (Inr response, w1) \<Rightarrow>
          (Inr (response\<lparr>raw_headers :=
                  foldl (\<lambda>hs p. set_header hs (fst p) (snd p)) (raw_headers response)
                    [(''X-Content-Type-Options'', ''nosniff''),
                     (''X-Frame-Options'', ''DENY''),
                     (''X-XSS-Protection'', ''1; mode=block''),
                     (''Strict-Transport-Security'', ''max-age=31536000; includeSubDomains''),
                     (''Referrer-Policy'', ''strict-origin-when-cross-origin''),
                     (''X-Accessibility-Compliant'', ''WCAG-2.1-AA''),
                     (''X-Screen-Reader-Optimized'', ''true'')]\<rparr>), w1))"

definition add_process_time_header :: "json_module \<Rightarrow> app \<Rightarrow> app" where
  "add_process_time_header json call_next request w =
     (let start_time = clock w
      in case call_next request w of
           (Inl e, w1) \<Rightarrow> (Inl e, w1)
         | (Inr response, w1) \<Rightarrow>
             (let process_time = clock w1 - start_time
              in (Inr (response\<lparr>raw_headers :=
                         set_header (raw_headers response) ''X-Process-Time''
                           (float_repr json process_time)\<rparr>), w1)))"

text \<open>
  The middlewares in the order \<^verbatim>\<open>main.py\<close> registers them.  Starlette's
  \<^verbatim>\<open>add_middleware\<close> (which \<^verbatim>\<open>@app.middleware("http")\<close> calls too) inserts at the head of
  \<^verbatim>\<open>user_middleware\<close>, and \<^verbatim>\<open>build_middleware_stack\<close> wraps the router in the
  middlewares of the reversed list, one after the other.  \<^verbatim>\<open>TrustedHostMiddleware\<close> and
  \<^verbatim>\<open>CORSMiddleware\<close> belong to the framework and are arguments.  The other four are
  instances of \<^verbatim>\<open>BaseHTTPMiddleware\<close> (\<^verbatim>\<open>@app.middleware("http")\<close> makes one of the decorated
  function), so each reaches the application it wraps through \<open>starlette_call_next\<close>.
\<close>

datatype middleware =
    TrustedHostMiddleware
  | CORSMiddleware
  | AccessibilityMiddleware
  | AnalyticsMiddleware
  | AddSecurityHeaders
  | AddProcessTimeHeader

definition add_middleware :: "middleware list \<Rightarrow> middleware \<Rightarrow> middleware list" where
  "add_middleware registered m = m # registered"

definition user_middleware :: "middleware list" where
  "user_middleware =
     foldl add_middleware []
       [TrustedHostMiddleware, CORSMiddleware, AccessibilityMiddleware, AnalyticsMiddleware,
        AddSecurityHeaders, AddProcessTimeHeader]"

definition wrap ::
    "json_module \<Rightarrow> (app \<Rightarrow> app) \<Rightarrow> (app \<Rightarrow> app) \<Rightarrow> app \<Rightarrow> middleware \<Rightarrow> app" where
  "wrap json trusted_host cors inner m =
     (case m of
        TrustedHostMiddleware \<Rightarrow> trusted_host inner
      | CORSMiddleware \<Rightarrow> cors inner
      | AccessibilityMiddleware \<Rightarrow> accessibility_dispatch json (starlette_call_next inner)
      | AnalyticsMiddleware \<Rightarrow> analytics_dispatch (starlette_call_next inner)
      | AddSecurityHeaders \<Rightarrow> add_security_headers (starlette_call_next inner)
      | AddProcessTimeHeader \<Rightarrow> add_process_time_header json (starlette_call_next inner))"

definition build_middleware_stack ::
    "json_module \<Rightarrow> (app \<Rightarrow> app) \<Rightarrow> (app \<Rightarrow> app) \<Rightarrow> app \<Rightarrow> app" where
  "build_middleware_stack json trusted_host cors router =
     foldl (wrap json trusted_host cors) router (rev user_middleware)"

section \<open>Conditions and worked inputs of the middleware properties\<close>





definition idle_world :: world where
  "idle_world = \<lparr> clock = 0, accessibility_context = None, user_id = None, logged = [] \<rparr>"

text \<open>A handler that answers with a JSON object telling whether the accessibility
  context was on the request state when it ran, a quarter of a second later.\<close>

definition probe_handler :: app where
  \<open>probe_handler request w =
     (Inr \<lparr> cls = JSONResponse, status_code = 200,
            raw_headers = [(''content-length'', ''13''), (''content-type'', ''application/json'')],
            body = (if accessibility_context w = None then ''{"seen":false}''
                    else ''{"seen":true}'') \<rparr>,
      w\<lparr>clock := clock w + 1 / 4\<rparr>)\<close>


section \<open>Properties of the token core\<close>

subsection \<open>Evaluation rules\<close>

lemmas codec_defs =
  jwt_decode_def validate_claims_def validate_iat_def validate_nbf_def validate_exp_def
  validate_aud_def validate_sub_def validate_jti_def validate_at_hash_def
  dict_get_def dict_in_def timegm_def hmac_key_def block_size_def utf8_length_def

lemmas time_defs = access_expire_def truthy_def seconds_def minutes_def hours_def days_def
  default_settings_def

subsection \<open>Dictionaries\<close>

lemma dict_get_dict_set:
  "dict_get (dict_set d k v) k' = (if k' = k then Some v else dict_get d k')"
  by (induction d) (auto simp: dict_get_def)

lemma dict_set_twice: "dict_set (dict_set d k a) k c = dict_set d k c"
  by (induction d) auto

lemma dict_set_overwrite:
  "k \<noteq> k' \<Longrightarrow> dict_set (dict_set (dict_set d k a) k' b) k c = dict_set (dict_set d k c) k' b"
  by (induction d) (auto simp: dict_set_twice)

lemma dict_set_map_J:
  "dict_set (map (\<lambda>p. (fst p, J (snd p))) d) k (J v) = map (\<lambda>p. (fst p, J (snd p))) (dict_set d k v)"
  by (induction d) auto

lemma dict_get_map_J:
  "dict_get (map (\<lambda>p. (fst p, J (snd p))) d) k = map_option J (dict_get d k)"
  by (induction d) (auto simp: dict_get_def)

subsection \<open>What the issuers return\<close>

lemma convert_time_claim_json: 
  "convert_time_claim k (map (\<lambda>p. (fst p, J (snd p))) d) = map (\<lambda>p. (fst p, J (snd p))) d"
  by (simp add: convert_time_claim_def dict_get_map_J split: option.splits claimval.splits)

lemma dumps_claims_json: "dumps_claims (map (\<lambda>p. (fst p, J (snd p))) d) = Inr d"
  by (induction d) auto

lemma jwt_encode_expiring:
  "jwt_encode (dict_update (map (\<lambda>p. (fst p, J (snd p))) data)
                 [(''exp'', Datetime e), (''type'', J t)]) key alg =
   Inr (JWS alg (dict_update data [(''exp'', JInt (timegm e)), (''type'', t)]) key)"
proof -
  let ?lift = "map (\<lambda>p. (fst p, J (snd p)))"
  let ?c = "dict_set (dict_set (?lift data) ''exp'' (Datetime e)) ''type'' (J t)"
  have g: "dict_get ?c ''exp'' = Some (Datetime e)"
    by (simp add: dict_get_dict_set)
  have "convert_time_claim ''exp'' ?c =
        dict_set (dict_set (?lift data) ''exp'' (J (JInt (timegm e)))) ''type'' (J t)"
    by (simp add: convert_time_claim_def g dict_set_overwrite)
  also have "\<dots> = ?lift (dict_set (dict_set data ''exp'' (JInt (timegm e))) ''type'' t)"
    by (simp add: dict_set_map_J)
  finally show ?thesis
    by (simp add: jwt_encode_def convert_time_claim_json dumps_claims_json)
qed

lemma create_access_token_eq:
  "create_access_token cfg utcnow data expires_delta =
   Inr (JWS (ALGORITHM cfg)
          (dict_update data
             [(''exp'', JInt (timegm (access_expire cfg utcnow expires_delta))),
              (''type'', JStr ''access'')])
          (SECRET_KEY cfg))"
  by (simp only: create_access_token_def Let_def jwt_encode_expiring)

lemma create_refresh_token_eq:
  "create_refresh_token cfg utcnow data =
   Inr (JWS (ALGORITHM cfg)
          (dict_update data
             [(''exp'', JInt (timegm (utcnow + days (REFRESH_TOKEN_EXPIRE_DAYS cfg)))),
              (''type'', JStr ''refresh'')])
          (SECRET_KEY cfg))"
  by (simp only: create_refresh_token_def Let_def jwt_encode_expiring)

lemma issued_payload_type:
  "dict_get (dict_update data [(''exp'', e), (''type'', t)]) ''type'' = Some t"
  by (simp add: dict_get_dict_set)

lemma issued_payload_exp:
  "dict_get (dict_update data [(''exp'', e), (''type'', t)]) ''exp'' = Some e"
  by (simp add: dict_get_dict_set)

lemma issued_payload_other:
  "k \<noteq> ''exp'' \<Longrightarrow> k \<noteq> ''type'' \<Longrightarrow>
   dict_get (dict_update data [(''exp'', e), (''type'', t)]) k = dict_get data k"
  by (simp add: dict_get_dict_set)

lemma jwt_decode_payload:
  "jwt_decode (JWS alg claims k) key algs t = Inr p \<Longrightarrow> p = claims"
  by (auto simp: jwt_decode_def split: if_splits option.splits)

subsection \<open>C10: issuance overwrites the discriminator claims\<close>

text \<open>
  C10.  For every configuration, clock and input mapping \<open>data\<close>, also one that has
  \<^verbatim>\<open>type\<close> or \<^verbatim>\<open>exp\<close> entries of its own, \<open>create_access_token\<close> returns a token signed
  with the configured key and algorithm whose payload has \<^verbatim>\<open>type\<close> exactly \<^verbatim>\<open>"access"\<close>
  and \<^verbatim>\<open>exp\<close> the expiry the issuer computed (in whole seconds), and
  \<open>create_refresh_token\<close> returns one whose payload has \<^verbatim>\<open>type\<close> exactly \<^verbatim>\<open>"refresh"\<close> and
  the issuer's expiry; a decoder that accepts the token returns that payload and no
  other.
\<close>

theorem issuance_overwrites_type_and_exp:
  "(\<exists>payload.
      create_access_token cfg utcnow data expires_delta =
        Inr (JWS (ALGORITHM cfg) payload (SECRET_KEY cfg)) \<and>
      dict_get payload ''type'' = Some (JStr ''access'') \<and>
      dict_get payload ''exp'' =
        Some (JInt (timegm (access_expire cfg utcnow expires_delta))) \<and>
      (\<forall>key algs t p.
         jwt_decode (JWS (ALGORITHM cfg) payload (SECRET_KEY cfg)) key algs t = Inr p \<longrightarrow>
         p = payload)) \<and>
   (\<exists>payload.
      create_refresh_token cfg utcnow data =
        Inr (JWS (ALGORITHM cfg) payload (SECRET_KEY cfg)) \<and>
      dict_get payload ''type'' = Some (JStr ''refresh'') \<and>
      dict_get payload ''exp'' =
        Some (JInt (timegm (utcnow + days (REFRESH_TOKEN_EXPIRE_DAYS cfg)))) \<and>
      (\<forall>key algs t p.
         jwt_decode (JWS (ALGORITHM cfg) payload (SECRET_KEY cfg)) key algs t = Inr p \<longrightarrow>
         p = payload))"
proof (intro conjI)
  let ?a = "dict_update data
      [(''exp'', JInt (timegm (access_expire cfg utcnow expires_delta))),
       (''type'', JStr ''access'')]"
  have "create_access_token cfg utcnow data expires_delta =
          Inr (JWS (ALGORITHM cfg) ?a (SECRET_KEY cfg))"
    by (rule create_access_token_eq)
  moreover have "dict_get ?a ''type'' = Some (JStr ''access'')"
    by (rule issued_payload_type)
  moreover have "dict_get ?a ''exp'' =
      Some (JInt (timegm (access_expire cfg utcnow expires_delta)))"
    by (rule issued_payload_exp)
  moreover have "\<forall>key algs t p.
      jwt_decode (JWS (ALGORITHM cfg) ?a (SECRET_KEY cfg)) key algs t = Inr p \<longrightarrow> p = ?a"
    by (blast dest: jwt_decode_payload)
  ultimately show "\<exists>payload.
      create_access_token cfg utcnow data expires_delta =
        Inr (JWS (ALGORITHM cfg) payload (SECRET_KEY cfg)) \<and>
      dict_get payload ''type'' = Some (JStr ''access'') \<and>
      dict_get payload ''exp'' =
        Some (JInt (timegm (access_expire cfg utcnow expires_delta))) \<and>
      (\<forall>key algs t p.
         jwt_decode (JWS (ALGORITHM cfg) payload (SECRET_KEY cfg)) key algs t = Inr p \<longrightarrow>
         p = payload)"
    by blast
next
  let ?r = "dict_update data
      [(''exp'', JInt (timegm (utcnow + days (REFRESH_TOKEN_EXPIRE_DAYS cfg)))),
       (''type'', JStr ''refresh'')]"
  have "create_refresh_token cfg utcnow data = Inr (JWS (ALGORITHM cfg) ?r (SECRET_KEY cfg))"
    by (rule create_refresh_token_eq)
  moreover have "dict_get ?r ''type'' = Some (JStr ''refresh'')"
    by (rule issued_payload_type)
  moreover have "dict_get ?r ''exp'' =
      Some (JInt (timegm (utcnow + days (REFRESH_TOKEN_EXPIRE_DAYS cfg))))"
    by (rule issued_payload_exp)
  moreover have "\<forall>key algs t p.
      jwt_decode (JWS (ALGORITHM cfg) ?r (SECRET_KEY cfg)) key algs t = Inr p \<longrightarrow> p = ?r"
    by (blast dest: jwt_decode_payload)
  ultimately show "\<exists>payload.
      create_refresh_token cfg utcnow data =
        Inr (JWS (ALGORITHM cfg) payload (SECRET_KEY cfg)) \<and>
      dict_get payload ''type'' = Some (JStr ''refresh'') \<and>
      dict_get payload ''exp'' =
        Some (JInt (timegm (utcnow + days (REFRESH_TOKEN_EXPIRE_DAYS cfg)))) \<and>
      (\<forall>key algs t p.
         jwt_decode (JWS (ALGORITHM cfg) payload (SECRET_KEY cfg)) key algs t = Inr p \<longrightarrow>
         p = payload)"
    by blast
qed

text \<open>Both issuers at a mapping that brings a \<^verbatim>\<open>type\<close> and an \<^verbatim>\<open>exp\<close> of its own: the
  tokens carry the issuer's values, and the decoder returns them.\<close>

theorem issuance_overwrites_witness:
  "create_access_token default_settings 1700000000123456
     [(''sub'', JStr ''u1''), (''type'', JStr ''refresh''), (''exp'', JInt 0)]
     (Some (minutes 30)) =
     Inr (JWS ''HS256''
           [(''sub'', JStr ''u1''), (''type'', JStr ''access''), (''exp'', JInt 1700001800)]
           ''your-secret-key-change-this-in-production'') \<and>
   create_refresh_token default_settings 1700000000123456
     [(''sub'', JStr ''u1''), (''type'', JStr ''access''), (''exp'', JInt 0)] =
     Inr (JWS ''HS256''
           [(''sub'', JStr ''u1''), (''type'', JStr ''refresh''), (''exp'', JInt 1700604800)]
           ''your-secret-key-change-this-in-production'') \<and>
   jwt_decode
     (JWS ''HS256''
        [(''sub'', JStr ''u1''), (''type'', JStr ''access''), (''exp'', JInt 1700001800)]
        ''your-secret-key-change-this-in-production'')
     ''your-secret-key-change-this-in-production'' [''HS256''] 1700000000123456 =
     Inr [(''sub'', JStr ''u1''), (''type'', JStr ''access''), (''exp'', JInt 1700001800)]"
proof -
  let ?key = "''your-secret-key-change-this-in-production''"
  let ?now = "1700000000123456 :: int"
  let ?d1 = "[(''sub'', JStr ''u1''), (''type'', JStr ''refresh''), (''exp'', JInt 0)]"
  let ?d2 = "[(''sub'', JStr ''u1''), (''type'', JStr ''access''), (''exp'', JInt 0)]"
  let ?pa = "[(''sub'', JStr ''u1''), (''type'', JStr ''access''), (''exp'', JInt 1700001800)]"
  let ?pr = "[(''sub'', JStr ''u1''), (''type'', JStr ''refresh''), (''exp'', JInt 1700604800)]"
  from issuance_overwrites_type_and_exp [of default_settings ?now ?d1 "Some (minutes 30)"]
  obtain payload where
    tok: "create_access_token default_settings ?now ?d1 (Some (minutes 30)) =
            Inr (JWS (ALGORITHM default_settings) payload (SECRET_KEY default_settings))"
    and ty: "dict_get payload ''type'' = Some (JStr ''access'')"
    and dec: "\<And>key algs t p.
      jwt_decode (JWS (ALGORITHM default_settings) payload (SECRET_KEY default_settings))
        key algs t = Inr p \<Longrightarrow> p = payload"
    by blast
  have a: "create_access_token default_settings ?now ?d1 (Some (minutes 30)) =
      Inr (JWS ''HS256'' ?pa ?key)"
    by (simp add: create_access_token_eq time_defs timegm_def)
  with tok have p: "payload = ?pa"
    by (simp add: default_settings_def)
  from issuance_overwrites_type_and_exp [of default_settings ?now ?d2 "Some (minutes 30)"]
  obtain payload' where
    tok': "create_refresh_token default_settings ?now ?d2 =
            Inr (JWS (ALGORITHM default_settings) payload' (SECRET_KEY default_settings))"
    and ty': "dict_get payload' ''type'' = Some (JStr ''refresh'')"
    by blast
  have r: "create_refresh_token default_settings ?now ?d2 = Inr (JWS ''HS256'' ?pr ?key)"
    by (simp add: create_refresh_token_eq time_defs timegm_def)
  have "\<exists>q. jwt_decode (JWS ''HS256'' ?pa ?key) ?key [''HS256''] ?now = Inr q"
    by (simp add: codec_defs)
  then obtain q where q: "jwt_decode (JWS ''HS256'' ?pa ?key) ?key [''HS256''] ?now = Inr q" ..
  with dec [of ?key "[''HS256'']" ?now q] p have "q = ?pa"
    by (simp add: default_settings_def)
  with q a r show ?thesis by simp
qed

subsection \<open>Verifying an issued token\<close>

lemma validate_issued_other:
  "validate_iat (dict_update data [(''exp'', e), (''type'', ty)]) = validate_iat data"
  "validate_nbf (dict_update data [(''exp'', e), (''type'', ty)]) t = validate_nbf data t"
  "validate_aud (dict_update data [(''exp'', e), (''type'', ty)]) = validate_aud data"
  "validate_sub (dict_update data [(''exp'', e), (''type'', ty)]) = validate_sub data"
  "validate_jti (dict_update data [(''exp'', e), (''type'', ty)]) = validate_jti data"
  "validate_at_hash (dict_update data [(''exp'', e), (''type'', ty)]) = validate_at_hash data"
  by (simp_all add: validate_iat_def validate_nbf_def validate_aud_def validate_sub_def
        validate_jti_def validate_at_hash_def dict_get_dict_set dict_in_def
        dict_get_def [symmetric])

lemma validate_issued_exp:
  "validate_exp (dict_update data [(''exp'', JInt e), (''type'', ty)]) t =
     (if e < timegm t then Some (JWTError ExpiredSignature) else None)"
  by (simp add: validate_exp_def dict_get_dict_set)

lemma first_error_None: "first_error es = None \<longleftrightarrow> (\<forall>e \<in> set es. e = None)"
  by (induction es rule: first_error.induct) auto

lemma validate_issued:
  assumes "other_claims_valid data t"
  shows "validate_claims (dict_update data [(''exp'', JInt e), (''type'', ty)]) t =
     (if e < timegm t then Some (JWTError ExpiredSignature) else None)"
proof -
  from assms have "validate_iat data = None" "validate_nbf data t = None"
    "validate_aud data = None" "validate_sub data = None" "validate_jti data = None"
    "validate_at_hash data = None"
    by (simp_all add: other_claims_valid_def first_error_None)
  then show ?thesis
    by (simp add: validate_claims_def validate_issued_other validate_issued_exp
          del: dict_update.simps)
qed

lemma get_current_user_token_issued:
  assumes "other_claims_valid data t"
  shows "get_current_user_token cfg t
           (JWS (ALGORITHM cfg) (dict_update data [(''exp'', JInt e), (''type'', JStr ty)])
              (SECRET_KEY cfg)) =
         (if e < timegm t then Inl (HTTPException 401 ''Could not validate credentials'')
          else if ty = ''access''
            then Inr (dict_update data [(''exp'', JInt e), (''type'', JStr ty)])
          else Inl (HTTPException 401 ''Invalid token type''))"
  by (simp add: get_current_user_token_def verify_token_def jwt_decode_def
        validate_issued [OF assms] issued_payload_type del: dict_update.simps)


lemma timegm_mono: "a \<le> b \<Longrightarrow> timegm a \<le> timegm b"
  by (simp add: timegm_def zdiv_mono1)

lemma timegm_second_later: "a + seconds 1 \<le> b \<Longrightarrow> \<not> timegm b \<le> timegm a"
proof
  assume "a + seconds 1 \<le> b" "timegm b \<le> timegm a"
  then have "(a + 1 * 1000000) div 1000000 \<le> b div 1000000"
    by (intro zdiv_mono1) (simp_all add: seconds_def)
  with \<open>timegm b \<le> timegm a\<close> show False
    by (simp add: timegm_def)
qed

lemmas verify_defs = verify_password_reset_token_def get_current_user_token_def
  verify_token_def

subsection \<open>C2: the access-token round trip\<close>

text \<open>
  C2, as the code has it.  Let \<open>E\<close> be the expiry the issuer computes: \<open>utcnow + ttl\<close> for a
  non-zero \<open>ttl\<close>, and \<open>utcnow\<close> plus the configured \<^verbatim>\<open>ACCESS_TOKEN_EXPIRE_MINUTES\<close> when
  \<open>ttl\<close> is \<^verbatim>\<open>None\<close> or zero (\<^verbatim>\<open>if expires_delta:\<close> is false for a zero \<^verbatim>\<open>timedelta\<close>).
  For every claim set \<open>data\<close> whose other registered claims the decoder accepts at the
  time \<open>t\<close> of the check, \<open>create_access_token\<close> returns a token, and
  \<open>get_current_user_token\<close> at \<open>t\<close> returns its payload as long as the whole second of
  \<open>t\<close> is not after the whole second of \<open>E\<close> (so at every \<open>t \<le> E\<close>), and fails with the
  401 \<^verbatim>\<open>Could not validate credentials\<close> otherwise (so from one second after \<open>E\<close> on).
  The payload has \<^verbatim>\<open>type\<close> = \<^verbatim>\<open>"access"\<close>, \<^verbatim>\<open>exp\<close> = the whole seconds of \<open>E\<close>, and under
  every other key exactly what \<open>data\<close> has; entries of \<open>data\<close> under \<^verbatim>\<open>exp\<close> and \<^verbatim>\<open>type\<close>
  are overwritten.
\<close>

theorem access_token_round_trip:
  assumes "other_claims_valid data t"
  shows "\<exists>tok payload.
     create_access_token cfg utcnow data expires_delta = Inr tok \<and>
     get_current_user_token cfg t tok =
       (if timegm t \<le> timegm (access_expire cfg utcnow expires_delta) then Inr payload
        else Inl (HTTPException 401 ''Could not validate credentials'')) \<and>
     dict_get payload ''type'' = Some (JStr ''access'') \<and>
     dict_get payload ''exp'' = Some (JInt (timegm (access_expire cfg utcnow expires_delta))) \<and>
     (\<forall>k. k \<noteq> ''exp'' \<and> k \<noteq> ''type'' \<longrightarrow> dict_get payload k = dict_get data k) \<and>
     access_expire cfg utcnow expires_delta =
       (case expires_delta of
          None \<Rightarrow> utcnow + minutes (ACCESS_TOKEN_EXPIRE_MINUTES cfg)
        | Some ttl \<Rightarrow> if ttl = 0 then utcnow + minutes (ACCESS_TOKEN_EXPIRE_MINUTES cfg)
                      else utcnow + ttl) \<and>
     (t \<le> access_expire cfg utcnow expires_delta \<longrightarrow>
        timegm t \<le> timegm (access_expire cfg utcnow expires_delta)) \<and>
     (access_expire cfg utcnow expires_delta + seconds 1 \<le> t \<longrightarrow>
        \<not> timegm t \<le> timegm (access_expire cfg utcnow expires_delta))"
proof -
  let ?E = "access_expire cfg utcnow expires_delta"
  let ?p = "dict_update data [(''exp'', JInt (timegm ?E)), (''type'', JStr ''access'')]"
  have 1: "get_current_user_token cfg t (JWS (ALGORITHM cfg) ?p (SECRET_KEY cfg)) =
       (if timegm t \<le> timegm ?E then Inr ?p
        else Inl (HTTPException 401 ''Could not validate credentials''))"
    by (simp add: get_current_user_token_issued [OF assms] del: dict_update.simps)
  have 2: "?E = (case expires_delta of
          None \<Rightarrow> utcnow + minutes (ACCESS_TOKEN_EXPIRE_MINUTES cfg)
        | Some ttl \<Rightarrow> if ttl = 0 then utcnow + minutes (ACCESS_TOKEN_EXPIRE_MINUTES cfg)
                      else utcnow + ttl)"
    by (simp add: access_expire_def truthy_def split: option.splits)
  have 3: "t \<le> ?E \<longrightarrow> timegm t \<le> timegm ?E"
    by (simp add: timegm_def zdiv_mono1)
  have 4: "?E + seconds 1 \<le> t \<longrightarrow> \<not> timegm t \<le> timegm ?E"
  proof
    assume "?E + seconds 1 \<le> t"
    then have "(?E + 1 * 1000000) div 1000000 \<le> t div 1000000"
      by (intro zdiv_mono1) (simp_all add: seconds_def)
    then show "\<not> timegm t \<le> timegm ?E"
      by (simp add: timegm_def)
  qed
  show ?thesis
    apply (rule exI [of _ "JWS (ALGORITHM cfg) ?p (SECRET_KEY cfg)"])
    apply (rule exI [of _ ?p])
    apply (intro conjI)
           apply (rule create_access_token_eq)
          apply (rule 1)
         apply (rule issued_payload_type)
        apply (rule issued_payload_exp)
       apply (simp add: dict_get_dict_set)
      apply (rule 2)
     apply (rule 3)
    apply (rule 4)
    done
qed

theorem access_token_round_trip_witness:
  "\<exists>tok payload.
     create_access_token default_settings 1700000000123456
       [(''sub'', JStr ''u1''), (''role'', JStr ''user'')] (Some (minutes 30)) = Inr tok \<and>
     get_current_user_token default_settings 1700000000123456 tok = Inr payload \<and>
     dict_get payload ''sub'' = Some (JStr ''u1'') \<and>
     dict_get payload ''type'' = Some (JStr ''access'') \<and>
     get_current_user_token default_settings (1700000000123456 + minutes 31) tok =
       Inl (HTTPException 401 ''Could not validate credentials'')"
proof -
  let ?data = "[(''sub'', JStr ''u1''), (''role'', JStr ''user'')]"
  let ?now = "1700000000123456 :: int"
  let ?E = "access_expire default_settings ?now (Some (minutes 30))"
  have v1: "other_claims_valid ?data ?now"
    by (simp add: other_claims_valid_def codec_defs)
  have v2: "other_claims_valid ?data (?now + minutes 31)"
    by (simp add: other_claims_valid_def codec_defs)
  have before: "timegm ?now \<le> timegm ?E"
    by (simp add: time_defs timegm_def)
  have after: "\<not> timegm (?now + minutes 31) \<le> timegm ?E"
    by (simp add: time_defs timegm_def)
  from access_token_round_trip [OF v1, of default_settings ?now "Some (minutes 30)"]
  obtain tok payload where
    tok: "create_access_token default_settings ?now ?data (Some (minutes 30)) = Inr tok"
    and ok: "get_current_user_token default_settings ?now tok =
       (if timegm ?now \<le> timegm ?E then Inr payload
        else Inl (HTTPException 401 ''Could not validate credentials''))"
    and ty: "dict_get payload ''type'' = Some (JStr ''access'')"
    and other: "\<forall>k. k \<noteq> ''exp'' \<and> k \<noteq> ''type'' \<longrightarrow> dict_get payload k = dict_get ?data k"
    by blast
  from access_token_round_trip [OF v2, of default_settings ?now "Some (minutes 30)"]
  obtain tok' payload' where
    tok': "create_access_token default_settings ?now ?data (Some (minutes 30)) = Inr tok'"
    and late: "get_current_user_token default_settings (?now + minutes 31) tok' =
       (if timegm (?now + minutes 31) \<le> timegm ?E then Inr payload'
        else Inl (HTTPException 401 ''Could not validate credentials''))"
    by blast
  from tok tok' have same: "tok' = tok" by simp
  from ok before have 1: "get_current_user_token default_settings ?now tok = Inr payload"
    by simp
  from other have "dict_get payload ''sub'' = dict_get ?data ''sub''"
    by simp
  then have 2: "dict_get payload ''sub'' = Some (JStr ''u1'')"
    by (simp add: dict_get_def)
  from late after same have 3: "get_current_user_token default_settings (?now + minutes 31) tok =
       Inl (HTTPException 401 ''Could not validate credentials'')"
    by simp
  from tok 1 2 ty 3 show ?thesis by blast
qed

text \<open>
  C2 as stated fails at two inputs.  With \<open>ttl\<close> a zero \<^verbatim>\<open>timedelta\<close> the token is still
  accepted one second after \<open>utcnow + ttl\<close>, since the default of 30 minutes was used; and
  a claim set with an \<^verbatim>\<open>exp\<close> entry of its own does not come back: the returned \<^verbatim>\<open>exp\<close>
  is the issuer's.
\<close>

theorem access_token_round_trip_counterexample:
  "create_access_token default_settings 1700000000000000 [(''sub'', JStr ''u1'')] (Some 0) =
     Inr (JWS ''HS256''
           [(''sub'', JStr ''u1''), (''exp'', JInt 1700001800), (''type'', JStr ''access'')]
           ''your-secret-key-change-this-in-production'') \<and>
   get_current_user_token default_settings (1700000000000000 + seconds 1)
     (JWS ''HS256''
        [(''sub'', JStr ''u1''), (''exp'', JInt 1700001800), (''type'', JStr ''access'')]
        ''your-secret-key-change-this-in-production'') =
     Inr [(''sub'', JStr ''u1''), (''exp'', JInt 1700001800), (''type'', JStr ''access'')] \<and>
   create_access_token default_settings 1700000000000000
     [(''exp'', JInt 0), (''sub'', JStr ''u1'')] (Some (minutes 30)) =
     Inr (JWS ''HS256''
           [(''exp'', JInt 1700001800), (''sub'', JStr ''u1''), (''type'', JStr ''access'')]
           ''your-secret-key-change-this-in-production'') \<and>
   get_current_user_token default_settings 1700000000000000
     (JWS ''HS256''
        [(''exp'', JInt 1700001800), (''sub'', JStr ''u1''), (''type'', JStr ''access'')]
        ''your-secret-key-change-this-in-production'') =
     Inr [(''exp'', JInt 1700001800), (''sub'', JStr ''u1''), (''type'', JStr ''access'')]"
  by (simp add: create_access_token_eq get_current_user_token_def verify_token_def
        codec_defs time_defs)

subsection \<open>C1: token type confusion\<close>

text \<open>A refresh token is never accepted where an access token is required, whatever the
  configuration and the time of the check; with claims the decoder accepts, the failure
  is the 401.\<close>

lemma refresh_token_never_accepted_as_access:
  assumes "create_refresh_token cfg utcnow data = Inr tok"
  shows "\<exists>e. get_current_user_token cfg' t tok = Inl e"
proof (cases "verify_token cfg' t tok")
  case (Inl e)
  then show ?thesis by (simp add: get_current_user_token_def)
next
  case (Inr p)
  let ?p = "dict_update data
             [(''exp'', JInt (timegm (utcnow + days (REFRESH_TOKEN_EXPIRE_DAYS cfg)))),
              (''type'', JStr ''refresh'')]"
  from assms have tok: "tok = JWS (ALGORITHM cfg) ?p (SECRET_KEY cfg)"
    by (simp add: create_refresh_token_eq)
  from Inr have "jwt_decode tok (SECRET_KEY cfg') [ALGORITHM cfg'] t = Inr p"
    by (auto simp: verify_token_def split: sum.splits error.splits)
  then have "p = ?p" unfolding tok by (rule jwt_decode_payload)
  then have "dict_get p ''type'' = Some (JStr ''refresh'')"
    by (simp add: dict_get_dict_set)
  with Inr show ?thesis by (simp add: get_current_user_token_def)
qed

lemma refresh_token_rejected_as_access:
  assumes "other_claims_valid data t"
  shows "\<exists>tok. create_refresh_token cfg utcnow data = Inr tok \<and>
     get_current_user_token cfg t tok =
       Inl (HTTPException 401
             (if timegm (utcnow + days (REFRESH_TOKEN_EXPIRE_DAYS cfg)) < timegm t
              then ''Could not validate credentials'' else ''Invalid token type''))"
  by (simp add: create_refresh_token_eq get_current_user_token_issued [OF assms]
        del: dict_update.simps)

text \<open>The other direction has no check at all: the only place that takes a refresh
  token, the \<^verbatim>\<open>/refresh\<close> endpoint, returns a fresh access token for every argument.\<close>

lemma refresh_token_ignores_argument:
  "refresh_token cfg utcnow tok =
     Inr \<lparr> access_token =
             JWS (ALGORITHM cfg)
               [(''sub'', JStr ''user@example.com''), (''email'', JStr ''user@example.com''),
                (''role'', JStr ''user''),
                (''exp'', JInt (timegm (access_expire cfg utcnow
                             (Some (minutes (ACCESS_TOKEN_EXPIRE_MINUTES cfg)))))),
                (''type'', JStr ''access'')]
               (SECRET_KEY cfg),
           token_type = ''bearer'',
           expires_in = ACCESS_TOKEN_EXPIRE_MINUTES cfg * 60 \<rparr>"
  by (simp add: refresh_token_def create_access_token_eq)

text \<open>
  C1 at a failing input: the access token issued for \<^verbatim>\<open>{"sub": "u1"}\<close> is handed to the
  \<^verbatim>\<open>/refresh\<close> endpoint, where a refresh token is expected, and the endpoint answers with
  a new access token instead of failing.
\<close>

theorem refresh_endpoint_accepts_access_token:
  "create_access_token default_settings 1700000000000000 [(''sub'', JStr ''u1'')]
     (Some (minutes 30)) =
     Inr (JWS ''HS256''
           [(''sub'', JStr ''u1''), (''exp'', JInt 1700001800), (''type'', JStr ''access'')]
           ''your-secret-key-change-this-in-production'') \<and>
   refresh_token default_settings 1700000000000000
     (JWS ''HS256''
        [(''sub'', JStr ''u1''), (''exp'', JInt 1700001800), (''type'', JStr ''access'')]
        ''your-secret-key-change-this-in-production'') =
     Inr \<lparr> access_token =
             JWS ''HS256''
               [(''sub'', JStr ''user@example.com''), (''email'', JStr ''user@example.com''),
                (''role'', JStr ''user''), (''exp'', JInt 1700001800),
                (''type'', JStr ''access'')]
               ''your-secret-key-change-this-in-production'',
           token_type = ''bearer'', expires_in = 1800 \<rparr>"
  by (simp add: create_access_token_eq refresh_token_ignores_argument time_defs timegm_def)

subsection \<open>C3: the password-reset round trip\<close>

lemma create_password_reset_token_eq:
  "create_password_reset_token cfg utcoffset utcnow email =
     Inr (JWS (ALGORITHM cfg)
           [(''exp'', JFloat (timestamp utcoffset (utcnow + hours 1))),
            (''nbf'', JInt (timegm utcnow)), (''sub'', JStr email),
            (''type'', JStr ''password_reset'')]
           (SECRET_KEY cfg))"
  by (simp add: create_password_reset_token_def jwt_encode_def convert_time_claim_def
        dict_get_def)

lemma trunc_timestamp_utc: "0 \<le> dt \<Longrightarrow> trunc (timestamp 0 dt) = timegm dt"
proof -
  assume "0 \<le> dt"
  have "\<lfloor>(of_int dt :: rat) / of_int 1000000\<rfloor> = dt div 1000000"
    by (rule floor_divide_of_int_eq)
  with \<open>0 \<le> dt\<close> show ?thesis
    by (simp add: trunc_def timestamp_def timegm_def)
qed

lemma trunc_eval: "trunc (numeral a / numeral b) = numeral a div numeral b"
proof -
  have "\<lfloor>(of_int (numeral a) :: rat) / of_int (numeral b)\<rfloor> = numeral a div numeral b"
    by (rule floor_divide_of_int_eq)
  then have "\<lfloor>(numeral a :: rat) / numeral b\<rfloor> = numeral a div numeral b"
    by (simp only: of_int_numeral)
  moreover have "0 \<le> (numeral a :: rat) / numeral b"
    by simp
  ultimately show ?thesis
    by (simp only: trunc_def if_True)
qed

text \<open>
  C3, as the code has it on a host whose local time is UTC (\<open>utcoffset = 0\<close>).  For every
  email and every issuance time \<open>utcnow\<close> after the epoch, the token is issued, and
  verifying it at a time \<open>t\<close> not before \<open>utcnow\<close> returns the email as long as the whole
  second of \<open>t\<close> is not after the whole second of \<open>utcnow + 1 hour\<close> (so immediately, and
  at every \<open>t\<close> up to one hour after issuance), and \<^verbatim>\<open>None\<close> otherwise (so from one hour
  and one second after issuance on).
\<close>

theorem password_reset_round_trip:
  assumes "0 \<le> utcnow" and "utcnow \<le> t"
  shows "\<exists>tok.
     create_password_reset_token cfg 0 utcnow email = Inr tok \<and>
     verify_password_reset_token cfg t tok =
       Inr (if timegm t \<le> timegm (utcnow + hours 1) then Some (JStr email) else None) \<and>
     (t \<le> utcnow + hours 1 \<longrightarrow> timegm t \<le> timegm (utcnow + hours 1)) \<and>
     (utcnow + hours 1 + seconds 1 \<le> t \<longrightarrow> \<not> timegm t \<le> timegm (utcnow + hours 1))"
proof -
  from assms(1) have "0 \<le> utcnow + hours 1"
    by (simp add: hours_def minutes_def seconds_def)
  then have e: "trunc (timestamp 0 (utcnow + hours 1)) = timegm (utcnow + hours 1)"
    by (rule trunc_timestamp_utc)
  from assms(2) have n: "\<not> timegm t < timegm utcnow"
    using timegm_mono [of utcnow t] by simp
  have "verify_password_reset_token cfg t
          (JWS (ALGORITHM cfg)
           [(''exp'', JFloat (timestamp 0 (utcnow + hours 1))),
            (''nbf'', JInt (timegm utcnow)), (''sub'', JStr email),
            (''type'', JStr ''password_reset'')]
           (SECRET_KEY cfg)) =
        Inr (if timegm t \<le> timegm (utcnow + hours 1) then Some (JStr email) else None)"
    using n
    by (simp add: verify_password_reset_token_def jwt_decode_def validate_claims_def
          validate_iat_def validate_nbf_def validate_exp_def validate_aud_def
          validate_sub_def validate_jti_def validate_at_hash_def dict_get_def dict_in_def e)
  then show ?thesis
    by (simp add: create_password_reset_token_eq timegm_mono timegm_second_later)
qed

theorem password_reset_round_trip_witness:
  "\<exists>tok.
     create_password_reset_token default_settings 0 1700000000123456 ''a@b.com'' = Inr tok \<and>
     verify_password_reset_token default_settings 1700000000123456 tok =
       Inr (Some (JStr ''a@b.com'')) \<and>
     verify_password_reset_token default_settings (1700000000123456 + hours 1 + seconds 1) tok
       = Inr None"
proof -
  let ?now = "1700000000123456 :: int"
  have h0: "0 \<le> ?now" by simp
  have h1: "?now \<le> ?now" by simp
  have h2: "?now \<le> ?now + hours 1 + seconds 1" by (simp add: time_defs)
  from password_reset_round_trip [OF h0 h1, of default_settings "''a@b.com''"]
  obtain tok where
    tok: "create_password_reset_token default_settings 0 ?now ''a@b.com'' = Inr tok"
    and v: "verify_password_reset_token default_settings ?now tok =
       Inr (if timegm ?now \<le> timegm (?now + hours 1) then Some (JStr ''a@b.com'') else None)"
    by blast
  from password_reset_round_trip [OF h0 h2, of default_settings "''a@b.com''"]
  obtain tok' where
    tok': "create_password_reset_token default_settings 0 ?now ''a@b.com'' = Inr tok'"
    and w: "verify_password_reset_token default_settings (?now + hours 1 + seconds 1) tok' =
       Inr (if timegm (?now + hours 1 + seconds 1) \<le> timegm (?now + hours 1)
            then Some (JStr ''a@b.com'') else None)"
    by blast
  from tok tok' have same: "tok' = tok" by simp
  from v have 1: "verify_password_reset_token default_settings ?now tok =
       Inr (Some (JStr ''a@b.com''))"
    by (simp add: time_defs timegm_def)
  from w same have 2: "verify_password_reset_token default_settings
       (?now + hours 1 + seconds 1) tok = Inr None"
    by (simp add: time_defs timegm_def)
  from tok 1 2 show ?thesis by blast
qed

text \<open>
  C3 as stated fails half a second after the hour: the clock has advanced more than one
  hour past issuance, and the token is still accepted, because the decoder compares whole
  seconds and accepts the second of \<^verbatim>\<open>exp\<close> itself.
\<close>

theorem password_reset_round_trip_counterexample:
  "create_password_reset_token default_settings 0 1700000000123456 ''a@b.com'' =
     Inr (JWS ''HS256''
           [(''exp'', JFloat (1700003600123456 / 1000000)), (''nbf'', JInt 1700000000),
            (''sub'', JStr ''a@b.com''), (''type'', JStr ''password_reset'')]
           ''your-secret-key-change-this-in-production'') \<and>
   verify_password_reset_token default_settings (1700000000123456 + hours 1 + 500000)
     (JWS ''HS256''
        [(''exp'', JFloat (1700003600123456 / 1000000)), (''nbf'', JInt 1700000000),
         (''sub'', JStr ''a@b.com''), (''type'', JStr ''password_reset'')]
        ''your-secret-key-change-this-in-production'') =
     Inr (Some (JStr ''a@b.com''))"
  by (simp add: create_password_reset_token_eq verify_defs codec_defs time_defs timestamp_def
        trunc_eval)

text \<open>On a host whose local time is two hours ahead of UTC the same token is expired the
  moment it is issued: \<^verbatim>\<open>expires.timestamp()\<close> reads the naive UTC datetime as local
  time.\<close>

lemma password_reset_token_local_time:
  "create_password_reset_token default_settings (hours 2) 1700000000123456 ''a@b.com'' =
     Inr (JWS ''HS256''
           [(''exp'', JFloat (1699996400123456 / 1000000)), (''nbf'', JInt 1700000000),
            (''sub'', JStr ''a@b.com''), (''type'', JStr ''password_reset'')]
           ''your-secret-key-change-this-in-production'') \<and>
   verify_password_reset_token default_settings 1700000000123456
     (JWS ''HS256''
        [(''exp'', JFloat (1699996400123456 / 1000000)), (''nbf'', JInt 1700000000),
         (''sub'', JStr ''a@b.com''), (''type'', JStr ''password_reset'')]
        ''your-secret-key-change-this-in-production'') =
     Inr None"
  by (simp add: create_password_reset_token_eq verify_defs codec_defs time_defs timestamp_def
        trunc_eval)

subsection \<open>C4: when password-reset verification raises\<close>









section \<open>Properties of the one-time codes\<close>

subsection \<open>The test vectors of RFC 4226\<close>

lemma rfc_secret_length: "length ''GEZDGNBVGY3TQOJQGEZDGNBVGY3TQOJQ'' = 32"
  by simp

lemma rfc_secret_upper:
  "map upper_char ''GEZDGNBVGY3TQOJQGEZDGNBVGY3TQOJQ'' = ''GEZDGNBVGY3TQOJQGEZDGNBVGY3TQOJQ''"
  by (simp add: upper_char_def)

lemma rfc_secret_unpadded:
  "rev (dropWhile (\<lambda>c. c = CHR ''='') (rev ''GEZDGNBVGY3TQOJQGEZDGNBVGY3TQOJQ'')) =
   ''GEZDGNBVGY3TQOJQGEZDGNBVGY3TQOJQ''"
  by simp

lemma rfc_secret_quanta:
  "decode_quanta ((32 + 7) div 8) ''GEZDGNBVGY3TQOJQGEZDGNBVGY3TQOJQ'' =
     Some ([49, 50, 51, 52, 53, 54, 55, 56, 57, 48, 49, 50, 51, 52, 53, 54, 55, 56, 57, 48],
           232854665520)"
  by (simp add: decode_quanta.simps to_bytes.simps b32rev_def b32_alphabet_def)

lemma rfc_key: "map of_char ''12345678901234567890'' =
   [49, 50, 51, 52, 53, 54, 55, 56, 57, 48, 49, 50, 51, 52, 53, 54, 55, 56, 57, 48 :: nat]"
  by simp

lemma b32decode_rfc:
  "b32decode ''GEZDGNBVGY3TQOJQGEZDGNBVGY3TQOJQ'' =
     Inr [49, 50, 51, 52, 53, 54, 55, 56, 57, 48, 49, 50, 51, 52, 53, 54, 55, 56, 57, 48]"
  unfolding b32decode_def Let_def rfc_secret_upper rfc_secret_unpadded rfc_secret_length
    rfc_secret_quanta
  by simp

lemma byte_secret_rfc:
  "byte_secret ''GEZDGNBVGY3TQOJQGEZDGNBVGY3TQOJQ'' =
     Inr [49, 50, 51, 52, 53, 54, 55, 56, 57, 48, 49, 50, 51, 52, 53, 54, 55, 56, 57, 48]"
  unfolding byte_secret_def Let_def rfc_secret_length
  by (simp add: b32decode_rfc)


lemma rfc_hmac_1:
  "rfc4226_hmac [49, 50, 51, 52, 53, 54, 55, 56, 57, 48, 49, 50, 51, 52, 53, 54, 55, 56, 57, 48]
     (to_bytes 8 (nat 1)) = 0x75a48a19d4cbe100644e8ac1397eea747a2d33ab"
  by (simp add: rfc4226_hmac_def to_bytes.simps)

lemma rfc_hmac_2:
  "rfc4226_hmac [49, 50, 51, 52, 53, 54, 55, 56, 57, 48, 49, 50, 51, 52, 53, 54, 55, 56, 57, 48]
     (to_bytes 8 (nat 2)) = 0x0bacb7fa082fef30782211938bc1c5e70416ff44"
  by (simp add: rfc4226_hmac_def to_bytes.simps)

lemma otp1: "generate_otp rfc4226_hmac ''GEZDGNBVGY3TQOJQGEZDGNBVGY3TQOJQ'' 1 = Inr ''287082''"
  unfolding generate_otp_def byte_secret_rfc Let_def sum.case rfc_hmac_1
  by (simp add: digest_byte_def str_nat.simps)

lemma otp2: "generate_otp rfc4226_hmac ''GEZDGNBVGY3TQOJQGEZDGNBVGY3TQOJQ'' 2 = Inr ''359152''"
  unfolding generate_otp_def byte_secret_rfc Let_def sum.case rfc_hmac_2
  by (simp add: digest_byte_def str_nat.simps)

lemma timecode_60: "timecode 60000000 = 2"
  by (simp add: timecode_def timegm_def trunc_def)

lemma timecode_30: "timecode 30000000 = 1"
  by (simp add: timecode_def timegm_def trunc_def)

lemma rfc_totp_at:
  "totp_at rfc4226_hmac ''GEZDGNBVGY3TQOJQGEZDGNBVGY3TQOJQ'' 60000000 0 = Inr ''359152''"
  "totp_at rfc4226_hmac ''GEZDGNBVGY3TQOJQGEZDGNBVGY3TQOJQ'' 60000000 (- 1) = Inr ''287082''"
  "totp_at rfc4226_hmac ''GEZDGNBVGY3TQOJQGEZDGNBVGY3TQOJQ'' 30000000 0 = Inr ''287082''"
  "totp_at rfc4226_hmac ''GEZDGNBVGY3TQOJQGEZDGNBVGY3TQOJQ'' 30000000 1 = Inr ''359152''"
  by (simp_all add: totp_at_def timecode_60 timecode_30 otp1 otp2)


subsection \<open>Every generated secret has a current code\<close>

lemma index_of_None: "index_of x xs = None \<longleftrightarrow> x \<notin> set xs"
  by (induction xs) auto

lemma b32rev_alphabet: "c \<in> set b32_alphabet \<Longrightarrow> \<exists>v. b32rev c = Some v"
  by (cases "b32rev c") (auto simp: b32rev_def index_of_None)

lemma alphabet_upper: "list_all (\<lambda>c. upper_char c = c) b32_alphabet"
  by (simp add: b32_alphabet_def upper_char_def)

lemma upper_char_alphabet: "c \<in> set b32_alphabet \<Longrightarrow> upper_char c = c"
  using alphabet_upper unfolding list_all_iff by blast

lemma alphabet_unpadded: "list_all (\<lambda>c. c \<noteq> CHR ''='') b32_alphabet"
  by (simp add: b32_alphabet_def)

lemma alphabet_no_padding: "c \<in> set b32_alphabet \<Longrightarrow> c \<noteq> CHR ''=''"
  using alphabet_unpadded unfolding list_all_iff by blast

lemma quantum_acc_alphabet:
  "list_all (\<lambda>c. c \<in> set b32_alphabet) cs \<Longrightarrow> \<exists>r. quantum_acc acc cs = Some r"
proof (induction cs arbitrary: acc)
  case Nil
  show ?case by simp
next
  case (Cons c cs)
  then obtain v where "b32rev c = Some v"
    using b32rev_alphabet [of c] by auto
  with Cons show ?case by simp
qed

lemma list_all_take: "list_all P xs \<Longrightarrow> list_all P (take n xs)"
  by (auto simp: list_all_iff dest: in_set_takeD)

lemma list_all_drop: "list_all P xs \<Longrightarrow> list_all P (drop n xs)"
  by (auto simp: list_all_iff dest: in_set_dropD)

lemma decode_quanta_alphabet:
  "list_all (\<lambda>c. c \<in> set b32_alphabet) s \<Longrightarrow> \<exists>r. decode_quanta n s = Some r"
proof (induction n s rule: decode_quanta.induct)
  case (1 n s)
  show ?case
  proof (cases "n = 0")
    case True
    then show ?thesis by (simp add: decode_quanta.simps)
  next
    case False
    from "1.prems" obtain acc where acc: "quantum_acc 0 (take 8 s) = Some acc"
      using quantum_acc_alphabet [OF list_all_take, of s 0 8] by auto
    show ?thesis
    proof (cases "n = 1")
      case True
      with acc show ?thesis by (simp add: decode_quanta.simps)
    next
      case n1: False
      from "1.IH" [OF False acc n1] "1.prems"
      obtain r where "decode_quanta (n - 1) (drop 8 s) = Some r"
        using list_all_drop by blast
      with acc False n1 show ?thesis
        by (subst decode_quanta.simps) (auto split: prod.splits)
    qed
  qed
qed

lemma dropWhile_none: "\<forall>x \<in> set xs. \<not> P x \<Longrightarrow> dropWhile P xs = xs"
  by (cases xs) auto

lemma byte_secret_random_base32:
  assumes "is_random_base32 s"
  shows "\<exists>key. byte_secret s = Inr key"
proof -
  from assms have len: "length s = 32" and ok: "list_all (\<lambda>c. c \<in> set b32_alphabet) s"
    by (simp_all add: is_random_base32_def)
  from ok have up: "map upper_char s = s"
    by (intro map_idI) (auto simp: list_all_iff upper_char_alphabet)
  from ok have "\<forall>c \<in> set (rev s). \<not> c = CHR ''=''"
    by (auto simp: list_all_iff alphabet_no_padding)
  then have strip: "rev (dropWhile (\<lambda>c. c = CHR ''='') (rev s)) = s"
    by (simp add: dropWhile_none)
  from decode_quanta_alphabet [OF ok] obtain decoded acc
    where dq: "decode_quanta ((32 + 7) div 8) s = Some (decoded, acc)"
    by (metis surj_pair)
  have "b32decode s = Inr decoded"
    unfolding b32decode_def Let_def up strip len dq by simp
  then show ?thesis
    unfolding byte_secret_def Let_def len by simp
qed

lemma timecode_nonneg: "0 \<le> now \<Longrightarrow> 0 \<le> timecode now"
proof -
  assume "0 \<le> now"
  then have "0 \<le> timegm now" by (simp add: timegm_def pos_imp_zdiv_nonneg_iff)
  then have "(0::rat) \<le> of_int (timegm now) / 30" by simp
  then show ?thesis by (simp add: timecode_def trunc_def)
qed

lemma totp_at_random_base32:
  assumes "is_random_base32 s" and "0 \<le> now"
  shows "\<exists>code. totp_at hmac s now 0 = Inr code"
proof -
  from byte_secret_random_base32 [OF assms(1)] obtain key where "byte_secret s = Inr key" ..
  with timecode_nonneg [OF assms(2)] show ?thesis
    by (simp add: totp_at_def generate_otp_def Let_def)
qed

lemma verify_totp_token_eq:
  "verify_totp_token hmac now secret token =
     (case totp_at hmac secret now 0 of Inl e \<Rightarrow> Inl e | Inr code \<Rightarrow> Inr (token = code))"
  by (simp add: verify_totp_token_def totp_verify_def)

subsection \<open>C5: the verification window\<close>

text \<open>
  C5, as the code has it.  For every secret that \<open>generate_totp_secret\<close> can return and
  every time after the epoch, the code of the current 30-second step is computed, and
  \<open>verify_totp_token\<close> accepts it; the code of any other step, adjacent or ten steps
  away, is accepted exactly when it is equal to the current code.  There is no window of
  adjacent steps: \<^verbatim>\<open>totp.verify(token)\<close> runs with pyotp's default \<^verbatim>\<open>valid_window=0\<close>.
\<close>

theorem totp_current_step_only:
  assumes "is_random_base32 s" and "0 \<le> now"
  shows "\<exists>cur. totp_at hmac s now 0 = Inr cur \<and>
           verify_totp_token hmac now s cur = Inr True \<and>
           (\<forall>i c. totp_at hmac s now i = Inr c \<longrightarrow>
                  verify_totp_token hmac now s c = Inr (c = cur))"
proof -
  from totp_at_random_base32 [OF assms] obtain cur where "totp_at hmac s now 0 = Inr cur" ..
  then show ?thesis by (simp add: verify_totp_token_eq)
qed

theorem totp_current_step_only_witness:
  "totp_at rfc4226_hmac ''GEZDGNBVGY3TQOJQGEZDGNBVGY3TQOJQ'' 60000000 0 = Inr ''359152'' \<and>
   verify_totp_token rfc4226_hmac 60000000 ''GEZDGNBVGY3TQOJQGEZDGNBVGY3TQOJQ'' ''359152'' =
     Inr True \<and>
   totp_at rfc4226_hmac ''GEZDGNBVGY3TQOJQGEZDGNBVGY3TQOJQ'' 60000000 (- 1) = Inr ''287082'' \<and>
   verify_totp_token rfc4226_hmac 60000000 ''GEZDGNBVGY3TQOJQGEZDGNBVGY3TQOJQ'' ''287082'' =
     Inr False"
proof -
  let ?s = "''GEZDGNBVGY3TQOJQGEZDGNBVGY3TQOJQ''"
  have gen: "is_random_base32 ?s"
    by (simp add: is_random_base32_def b32_alphabet_def)
  have t: "(0::int) \<le> 60000000" by simp
  from totp_current_step_only [OF gen t, of rfc4226_hmac]
  obtain cur where
    cur: "totp_at rfc4226_hmac ?s 60000000 0 = Inr cur"
    and ok: "verify_totp_token rfc4226_hmac 60000000 ?s cur = Inr True"
    and other: "\<And>i c. totp_at rfc4226_hmac ?s 60000000 i = Inr c \<Longrightarrow>
                  verify_totp_token rfc4226_hmac 60000000 ?s c = Inr (c = cur)"
    by blast
  from cur have c: "cur = ''359152''"
    by (simp add: rfc_totp_at)
  from other [OF rfc_totp_at(2)] c
  have "verify_totp_token rfc4226_hmac 60000000 ?s ''287082'' = Inr False"
    by simp
  with ok c rfc_totp_at show ?thesis by simp
qed


text \<open>
  C5 as stated fails for the adjacent steps.  With the secret and the digests of RFC 4226
  (where the codes of steps 1 and 2 are 287082 and 359152), the code of the previous step
  is rejected at second 60, and the code of the next step is rejected at second 30.
\<close>

theorem totp_window_counterexample:
  "totp_at rfc4226_hmac ''GEZDGNBVGY3TQOJQGEZDGNBVGY3TQOJQ'' 60000000 (- 1) = Inr ''287082'' \<and>
   verify_totp_token rfc4226_hmac 60000000 ''GEZDGNBVGY3TQOJQGEZDGNBVGY3TQOJQ'' ''287082'' =
     Inr False \<and>
   totp_at rfc4226_hmac ''GEZDGNBVGY3TQOJQGEZDGNBVGY3TQOJQ'' 30000000 1 = Inr ''359152'' \<and>
   verify_totp_token rfc4226_hmac 30000000 ''GEZDGNBVGY3TQOJQGEZDGNBVGY3TQOJQ'' ''359152'' =
     Inr False"
  by (simp add: verify_totp_token_eq rfc_totp_at)

section \<open>Properties of the middlewares\<close>

subsection \<open>C8: extracting the accessibility context\<close>

lemma lower_header_names:
  "lower ''X-Screen-Reader'' = ''x-screen-reader''"
  "lower ''X-High-Contrast'' = ''x-high-contrast''"
  "lower ''X-Reduced-Motion'' = ''x-reduced-motion''"
  "lower ''X-Keyboard-Navigation'' = ''x-keyboard-navigation''"
  "lower ''X-Font-Size'' = ''x-font-size''"
  "lower ''Accept-Language'' = ''accept-language''"
  "lower ''User-Agent'' = ''user-agent''"
  "lower ''X-Session-ID'' = ''x-session-id''"
  by (simp_all add: lower_def lower_char_def)

text \<open>
  C8, as the code has it.  Extraction is a total function of the request, so no header
  value makes it fail, and each field depends on its own header only.  A flag is true
  exactly when its header is present with the text \<^verbatim>\<open>true\<close>: absent, or present with any
  other value, it is false, the default.  \<^verbatim>\<open>font_size\<close>, \<^verbatim>\<open>language\<close> and \<^verbatim>\<open>user_agent\<close> are
  the strings \<^verbatim>\<open>"16"\<close>, \<^verbatim>\<open>"en"\<close> and \<^verbatim>\<open>""\<close> when their header is absent, each on its own,
  whatever other headers the request carries; when the header is present its value is
  copied as it is, whatever it holds.
\<close>

theorem accessibility_context_extraction:
  "get_accessibility_context request =
     [(''screen_reader'',
         JBool (map_of (headers request) ''x-screen-reader'' = Some ''true'')),
      (''high_contrast'',
         JBool (map_of (headers request) ''x-high-contrast'' = Some ''true'')),
      (''reduced_motion'',
         JBool (map_of (headers request) ''x-reduced-motion'' = Some ''true'')),
      (''keyboard_navigation'',
         JBool (map_of (headers request) ''x-keyboard-navigation'' = Some ''true'')),
      (''font_size'',
         JStr (case map_of (headers request) ''x-font-size'' of
                 None \<Rightarrow> ''16'' | Some v \<Rightarrow> v)),
      (''language'',
         JStr (case map_of (headers request) ''accept-language'' of
                 None \<Rightarrow> ''en'' | Some v \<Rightarrow> v)),
      (''user_agent'',
         JStr (case map_of (headers request) ''user-agent'' of
                 None \<Rightarrow> [] | Some v \<Rightarrow> v))] \<and>
   (map_of (headers request) ''x-screen-reader'' \<noteq> Some ''true'' \<longrightarrow>
      dict_get (get_accessibility_context request) ''screen_reader'' = Some (JBool False)) \<and>
   (map_of (headers request) ''x-high-contrast'' \<noteq> Some ''true'' \<longrightarrow>
      dict_get (get_accessibility_context request) ''high_contrast'' = Some (JBool False)) \<and>
   (map_of (headers request) ''x-reduced-motion'' \<noteq> Some ''true'' \<longrightarrow>
      dict_get (get_accessibility_context request) ''reduced_motion'' = Some (JBool False)) \<and>
   (map_of (headers request) ''x-keyboard-navigation'' \<noteq> Some ''true'' \<longrightarrow>
      dict_get (get_accessibility_context request) ''keyboard_navigation'' =
        Some (JBool False)) \<and>
   (map_of (headers request) ''x-font-size'' = None \<longrightarrow>
      dict_get (get_accessibility_context request) ''font_size'' = Some (JStr ''16'')) \<and>
   (map_of (headers request) ''accept-language'' = None \<longrightarrow>
      dict_get (get_accessibility_context request) ''language'' = Some (JStr ''en'')) \<and>
   (map_of (headers request) ''user-agent'' = None \<longrightarrow>
      dict_get (get_accessibility_context request) ''user_agent'' = Some (JStr [])) \<and>
   (map_of (headers request) ''x-font-size'' = Some v \<longrightarrow>
      dict_get (get_accessibility_context request) ''font_size'' = Some (JStr v)) \<and>
   (map_of (headers request) ''accept-language'' = Some v \<longrightarrow>
      dict_get (get_accessibility_context request) ''language'' = Some (JStr v)) \<and>
   (map_of (headers request) ''user-agent'' = Some v \<longrightarrow>
      dict_get (get_accessibility_context request) ''user_agent'' = Some (JStr v))"
  by (simp add: get_accessibility_context_def headers_get_def headers_get_default_def
        lower_header_names dict_get_def)

text \<open>A request of a browser that asks for a screen reader with \<^verbatim>\<open>yes\<close> and for a font
  size of 20: the flag is false, the font size is copied, and the language, which the
  request does not name, is the default although other headers are present.\<close>

theorem accessibility_context_extraction_witness:
  "get_accessibility_context
     (bare_request [(''user-agent'', ''Mozilla/5.0''), (''x-screen-reader'', ''yes''),
                    (''x-high-contrast'', ''true''), (''x-font-size'', ''20'')]) =
      [(''screen_reader'', JBool False), (''high_contrast'', JBool True),
       (''reduced_motion'', JBool False), (''keyboard_navigation'', JBool False),
       (''font_size'', JStr ''20''), (''language'', JStr ''en''),
       (''user_agent'', JStr ''Mozilla/5.0'')] \<and>
   dict_get (get_accessibility_context
       (bare_request [(''user-agent'', ''Mozilla/5.0''), (''x-screen-reader'', ''yes''),
                      (''x-high-contrast'', ''true''), (''x-font-size'', ''20'')]))
     ''screen_reader'' = Some (JBool False) \<and>
   dict_get (get_accessibility_context
       (bare_request [(''user-agent'', ''Mozilla/5.0''), (''x-screen-reader'', ''yes''),
                      (''x-high-contrast'', ''true''), (''x-font-size'', ''20'')]))
     ''language'' = Some (JStr ''en'') \<and>
   dict_get (get_accessibility_context
       (bare_request [(''user-agent'', ''Mozilla/5.0''), (''x-screen-reader'', ''yes''),
                      (''x-high-contrast'', ''true''), (''x-font-size'', ''20'')]))
     ''font_size'' = Some (JStr ''20'')"
proof -
  let ?r = "bare_request [(''user-agent'', ''Mozilla/5.0''), (''x-screen-reader'', ''yes''),
                          (''x-high-contrast'', ''true''), (''x-font-size'', ''20'')]"
  have hs: "headers ?r = [(''user-agent'', ''Mozilla/5.0''), (''x-screen-reader'', ''yes''),
                          (''x-high-contrast'', ''true''), (''x-font-size'', ''20'')]"
    by (simp add: bare_request_def)
  have sr: "map_of (headers ?r) ''x-screen-reader'' \<noteq> Some ''true''"
    unfolding hs by simp
  have lang: "map_of (headers ?r) ''accept-language'' = None"
    unfolding hs by simp
  have fs: "map_of (headers ?r) ''x-font-size'' = Some ''20''"
    unfolding hs by simp
  note inst = accessibility_context_extraction [of ?r "''20''"]
  from inst have "get_accessibility_context ?r =
     [(''screen_reader'', JBool (map_of (headers ?r) ''x-screen-reader'' = Some ''true'')),
      (''high_contrast'', JBool (map_of (headers ?r) ''x-high-contrast'' = Some ''true'')),
      (''reduced_motion'', JBool (map_of (headers ?r) ''x-reduced-motion'' = Some ''true'')),
      (''keyboard_navigation'',
         JBool (map_of (headers ?r) ''x-keyboard-navigation'' = Some ''true'')),
      (''font_size'',
         JStr (case map_of (headers ?r) ''x-font-size'' of None \<Rightarrow> ''16'' | Some v \<Rightarrow> v)),
      (''language'',
         JStr (case map_of (headers ?r) ''accept-language'' of
                 None \<Rightarrow> ''en'' | Some v \<Rightarrow> v)),
      (''user_agent'',
         JStr (case map_of (headers ?r) ''user-agent'' of None \<Rightarrow> [] | Some v \<Rightarrow> v))]"
    by (rule conjunct1)
  then have 1: "get_accessibility_context ?r =
      [(''screen_reader'', JBool False), (''high_contrast'', JBool True),
       (''reduced_motion'', JBool False), (''keyboard_navigation'', JBool False),
       (''font_size'', JStr ''20''), (''language'', JStr ''en''),
       (''user_agent'', JStr ''Mozilla/5.0'')]"
    unfolding hs by simp
  from inst sr
  have 2: "dict_get (get_accessibility_context ?r) ''screen_reader'' = Some (JBool False)"
    by blast
  from inst lang
  have 3: "dict_get (get_accessibility_context ?r) ''language'' = Some (JStr ''en'')"
    by blast
  from inst fs
  have 4: "dict_get (get_accessibility_context ?r) ''font_size'' = Some (JStr ''20'')"
    by blast
  from 1 2 3 4 show ?thesis by blast
qed

text \<open>
  C8 as stated fails for the two text fields: a font size of \<^verbatim>\<open>huge\<close> and a language of
  \<^verbatim>\<open>%%\<close> are not replaced by the defaults.
\<close>

theorem accessibility_context_counterexample:
  "dict_get (get_accessibility_context (bare_request [(''x-font-size'', ''huge'')]))
     ''font_size'' = Some (JStr ''huge'') \<and>
   dict_get (get_accessibility_context (bare_request [(''accept-language'', ''%%'')]))
     ''language'' = Some (JStr ''%%'')"
  by (simp add: get_accessibility_context_def headers_get_def headers_get_default_def
        lower_header_names dict_get_def bare_request_def)

subsection \<open>Evaluation rules of the middlewares\<close>


lemmas header_defs =
  add_accessibility_headers_def lower_def lower_char_def init_headers_def json_response_def


subsection \<open>The enrichment stage\<close>






text \<open>What the stage does with a response that comes through Starlette's \<^verbatim>\<open>call_next\<close>:
  it sets the headers and leaves the body alone.\<close>

lemma streamed_response_not_enriched:
  assumes "inner request
             (w\<lparr>accessibility_context := Some (get_accessibility_context request)\<rparr>) =
           (Inr response, w1)"
  shows "accessibility_dispatch json (starlette_call_next inner) request w =
           (Inr (add_accessibility_headers (response\<lparr>cls := StreamingResponse\<rparr>)), w1)"
  using assms by (simp add: accessibility_dispatch_def starlette_call_next_def Let_def)

subsection \<open>C6: the response envelope\<close>




subsection \<open>C7: bodies that pass through\<close>




subsection \<open>C9: the order of the pipeline\<close>

lemma build_middleware_stack_eq:
  "build_middleware_stack json trusted_host cors router =
     add_process_time_header json (starlette_call_next
       (add_security_headers (starlette_call_next
          (analytics_dispatch (starlette_call_next
             (accessibility_dispatch json (starlette_call_next
                (cors (trusted_host router)))))))))"
  by (simp add: build_middleware_stack_def user_middleware_def add_middleware_def wrap_def)

lemma log_analytics_event_clock: "clock (log_analytics_event ri rs request w) = clock w"
  by (simp add: log_analytics_event_def Let_def)

text \<open>
  C9.  The application that \<^verbatim>\<open>main.py\<close> assembles answers every request as follows.  The
  accessibility context is extracted and stored on the request state; then the handler
  (the router inside the two framework middlewares) runs, on that state.  If it raises,
  the exception passes through and nothing is logged.  Otherwise the enrichment stage
  receives the handler's response as Starlette streams it and sets the accessibility
  headers; the analytics stage, which wraps the enrichment stage, logs one event whose
  status code, success flag and headers are those of the enriched response and whose
  elapsed time runs from before the extraction to after the enrichment; the security
  headers and \<^verbatim>\<open>X-Process-Time\<close> are set last.
\<close>

theorem pipeline_order:
  "build_middleware_stack json trusted_host cors router request w =
     (case cors (trusted_host router) request
             (w\<lparr>accessibility_context := Some (get_accessibility_context request)\<rparr>) of
        (Inl e, w1) \<Rightarrow> (Inl e, w1)
      | (Inr response, w1) \<Rightarrow>
          (let enriched = add_accessibility_headers (response\<lparr>cls := StreamingResponse\<rparr>);
               w2 = log_analytics_event (extract_request_info request w)
                      (extract_response_info enriched (clock w1 - clock w)) request w1
           in (Inr (enriched\<lparr>raw_headers :=
                      set_header
                        (foldl (\<lambda>hs p. set_header hs (fst p) (snd p)) (raw_headers enriched)
                           [(''X-Content-Type-Options'', ''nosniff''),
                            (''X-Frame-Options'', ''DENY''),
                            (''X-XSS-Protection'', ''1; mode=block''),
                            (''Strict-Transport-Security'',
                               ''max-age=31536000; includeSubDomains''),
                            (''Referrer-Policy'', ''strict-origin-when-cross-origin''),
                            (''X-Accessibility-Compliant'', ''WCAG-2.1-AA''),
                            (''X-Screen-Reader-Optimized'', ''true'')])
                        ''X-Process-Time'' (float_repr json (clock w1 - clock w))\<rparr>),
               w2))) \<and>
   (\<forall>response w1.
      cors (trusted_host router) request
        (w\<lparr>accessibility_context := Some (get_accessibility_context request)\<rparr>) =
        (Inr response, w1) \<longrightarrow>
      (\<exists>event.
         logged (snd (build_middleware_stack json trusted_host cors router request w)) =
           logged w1 @ [LogInfo event] \<and>
         rs_status_code (event_response event) = status_code response \<and>
         rs_success (event_response event) =
           (200 \<le> status_code response \<and> status_code response < 400) \<and>
         rs_process_time (event_response event) = clock w1 - clock w \<and>
         rs_headers (event_response event) =
           dict_of_headers (raw_headers (add_accessibility_headers response))))"
proof -
  let ?w0 = "w\<lparr>accessibility_context := Some (get_accessibility_context request)\<rparr>"
  let ?inner = "cors (trusted_host router)"
  have stack: "build_middleware_stack json trusted_host cors router request w =
     (case ?inner request ?w0 of
        (Inl e, w1) \<Rightarrow> (Inl e, w1)
      | (Inr response, w1) \<Rightarrow>
          (let enriched = add_accessibility_headers (response\<lparr>cls := StreamingResponse\<rparr>);
               w2 = log_analytics_event (extract_request_info request w)
                      (extract_response_info enriched (clock w1 - clock w)) request w1
           in (Inr (enriched\<lparr>raw_headers :=
                      set_header
                        (foldl (\<lambda>hs p. set_header hs (fst p) (snd p)) (raw_headers enriched)
                           [(''X-Content-Type-Options'', ''nosniff''),
                            (''X-Frame-Options'', ''DENY''),
                            (''X-XSS-Protection'', ''1; mode=block''),
                            (''Strict-Transport-Security'',
                               ''max-age=31536000; includeSubDomains''),
                            (''Referrer-Policy'', ''strict-origin-when-cross-origin''),
                            (''X-Accessibility-Compliant'', ''WCAG-2.1-AA''),
                            (''X-Screen-Reader-Optimized'', ''true'')])
                        ''X-Process-Time'' (float_repr json (clock w1 - clock w))\<rparr>),
               w2)))"
  proof (cases "?inner request ?w0")
    case (Pair result w1)
    show ?thesis
    proof (cases result)
      case (Inl e)
      with Pair show ?thesis
        by (simp add: build_middleware_stack_eq add_process_time_header_def
              add_security_headers_def analytics_dispatch_def accessibility_dispatch_def
              starlette_call_next_def Let_def)
    next
      case (Inr response)
      with Pair show ?thesis
        by (simp add: build_middleware_stack_eq add_process_time_header_def
              add_security_headers_def analytics_dispatch_def accessibility_dispatch_def
              starlette_call_next_def Let_def log_analytics_event_clock
              add_accessibility_headers_def extract_response_info_def)
    qed
  qed
  moreover have "\<exists>event.
         logged (snd (build_middleware_stack json trusted_host cors router request w)) =
           logged w1 @ [LogInfo event] \<and>
         rs_status_code (event_response event) = status_code response \<and>
         rs_success (event_response event) =
           (200 \<le> status_code response \<and> status_code response < 400) \<and>
         rs_process_time (event_response event) = clock w1 - clock w \<and>
         rs_headers (event_response event) =
           dict_of_headers (raw_headers (add_accessibility_headers response))"
    if "?inner request ?w0 = (Inr response, w1)" for response w1
    using that
    by (simp add: stack Let_def log_analytics_event_def extract_response_info_def
          add_accessibility_headers_def)
  ultimately show ?thesis by blast
qed

text \<open>The probing handler reports that it saw the context, and the event holds the
  headers that the enrichment stage set.\<close>

theorem pipeline_order_witness:
  \<open>(\<exists>r. fst (build_middleware_stack py_json (\<lambda>inner. inner) (\<lambda>inner. inner) probe_handler
               (bare_request [(''x-screen-reader'', ''true'')]) idle_world) = Inr r \<and>
        body r = ''{"seen":true}'' \<and> status_code r = 200) \<and>
   (\<exists>event.
      logged (snd (build_middleware_stack py_json (\<lambda>inner. inner) (\<lambda>inner. inner) probe_handler
                     (bare_request [(''x-screen-reader'', ''true'')]) idle_world)) =
        [LogInfo event] \<and>
      rs_status_code (event_response event) = 200 \<and>
      rs_success (event_response event) \<and>
      rs_process_time (event_response event) = 1 / 4 \<and>
      rs_headers (event_response event) =
        [(''content-length'', ''13''), (''content-type'', ''application/json''),
         (''x-accessibility-compliant'', ''WCAG-2.1-AA''),
         (''x-screen-reader-optimized'', ''true''),
         (''x-keyboard-accessible'', ''true''),
         (''x-high-contrast-support'', ''true''),
         (''x-content-language'', ''en'')])\<close>
proof -
  let ?request = "bare_request [(''x-screen-reader'', ''true'')]"
  let ?w0 = "idle_world\<lparr>accessibility_context := Some (get_accessibility_context ?request)\<rparr>"
  let ?response = \<open>\<lparr> cls = JSONResponse, status_code = 200,
      raw_headers = [(''content-length'', ''13''), (''content-type'', ''application/json'')],
      body = ''{"seen":true}'' \<rparr>\<close>
  let ?stack = "build_middleware_stack py_json (\<lambda>inner. inner) (\<lambda>inner. inner) probe_handler
      ?request idle_world"
  have handler: "probe_handler ?request ?w0 = (Inr ?response, ?w0\<lparr>clock := 1 / 4\<rparr>)"
    by (simp add: probe_handler_def idle_world_def)
  note order = pipeline_order
      [of py_json "\<lambda>inner. inner" "\<lambda>inner. inner" probe_handler ?request idle_world]
  from order have "?stack =
     (case probe_handler ?request ?w0 of
        (Inl e, w1) \<Rightarrow> (Inl e, w1)
      | (Inr response, w1) \<Rightarrow>
          (let enriched = add_accessibility_headers (response\<lparr>cls := StreamingResponse\<rparr>);
               w2 = log_analytics_event (extract_request_info ?request idle_world)
                      (extract_response_info enriched (clock w1 - clock idle_world)) ?request w1
           in (Inr (enriched\<lparr>raw_headers :=
                      set_header
                        (foldl (\<lambda>hs p. set_header hs (fst p) (snd p)) (raw_headers enriched)
                           [(''X-Content-Type-Options'', ''nosniff''),
                            (''X-Frame-Options'', ''DENY''),
                            (''X-XSS-Protection'', ''1; mode=block''),
                            (''Strict-Transport-Security'',
                               ''max-age=31536000; includeSubDomains''),
                            (''Referrer-Policy'', ''strict-origin-when-cross-origin''),
                            (''X-Accessibility-Compliant'', ''WCAG-2.1-AA''),
                            (''X-Screen-Reader-Optimized'', ''true'')])
                        ''X-Process-Time''
                        (float_repr py_json (clock w1 - clock idle_world))\<rparr>),
               w2)))"
    by (rule conjunct1)
  then have first: "\<exists>r. fst ?stack = Inr r \<and> body r = body ?response \<and>
      status_code r = status_code ?response"
    unfolding handler by (simp add: Let_def add_accessibility_headers_def)
  from order [THEN conjunct2, rule_format, OF handler]
  obtain event where
    "logged (snd ?stack) = logged (?w0\<lparr>clock := 1 / 4\<rparr>) @ [LogInfo event]"
    "rs_status_code (event_response event) = status_code ?response"
    "rs_success (event_response event) =
       (200 \<le> status_code ?response \<and> status_code ?response < 400)"
    "rs_process_time (event_response event) = clock (?w0\<lparr>clock := 1 / 4\<rparr>) - clock idle_world"
    "rs_headers (event_response event) =
       dict_of_headers (raw_headers (add_accessibility_headers ?response))"
    by blast
  then have second: "\<exists>event.
      logged (snd ?stack) = [LogInfo event] \<and>
      rs_status_code (event_response event) = 200 \<and>
      rs_success (event_response event) \<and>
      rs_process_time (event_response event) = 1 / 4 \<and>
      rs_headers (event_response event) =
        [(''content-length'', ''13''), (''content-type'', ''application/json''),
         (''x-accessibility-compliant'', ''WCAG-2.1-AA''),
         (''x-screen-reader-optimized'', ''true''),
         (''x-keyboard-accessible'', ''true''),
         (''x-high-contrast-support'', ''true''),
         (''x-content-language'', ''en'')]"
    by (simp add: idle_world_def header_defs)
  from first second show ?thesis by simp
qed

end
